theory Spec2Isabelle
  imports Main
begin

section \<open>JavaScript values\<close>

text \<open>
  The values that reach the service from the chat transport and from request bodies.
  Numbers are the integral ones; an object lists its own enumerable properties in insertion
  order. \<open>JExotic\<close> stands for an object whose \<open>Object.prototype.toString\<close> tag is not
  \<open>[object Object]\<close> (a Map, a Set, a RegExp, ...) and that has no \<open>toJSON\<close>; it carries the
  text its \<open>toString()\<close> returns. \<open>JCircular\<close> is a reference back to an enclosing object or
  array.
\<close>

datatype jsval =
    JUndefined
  | JNull
  | JBool bool
  | JNum int
  | JStr string
  | JBigInt int
  | JUint8Array "nat list"
  | JBuffer "nat list"
  | JFunction string
  | JArray "jsval list"
  | JObject "(string \<times> jsval) list"
  | JExotic string
  | JCircular

fun typeof :: "jsval \<Rightarrow> string" where
  "typeof JUndefined = ''undefined''"
| "typeof (JBool _) = ''boolean''"
| "typeof (JNum _) = ''number''"
| "typeof (JStr _) = ''string''"
| "typeof (JBigInt _) = ''bigint''"
| "typeof (JFunction _) = ''function''"
| "typeof _ = ''object''"

fun truthy :: "jsval \<Rightarrow> bool" where
  "truthy JUndefined = False"
| "truthy JNull = False"
| "truthy (JBool b) = b"
| "truthy (JNum n) = (n \<noteq> 0)"
| "truthy (JStr s) = (s \<noteq> [])"
| "truthy (JBigInt n) = (n \<noteq> 0)"
| "truthy _ = True"

text \<open>Property read \<open>obj[k]\<close> on own properties; a missing property reads \<open>undefined\<close>.\<close>

fun js_get :: "jsval \<Rightarrow> string \<Rightarrow> jsval" where
  "js_get (JObject kvs) k = (case map_of kvs k of None \<Rightarrow> JUndefined | Some v \<Rightarrow> v)"
| "js_get _ k = JUndefined"

subsection \<open>Strings\<close>

definition isDigit :: "char \<Rightarrow> bool" where
  "isDigit c = (c \<in> set ''0123456789'')"

definition startsWith :: "string \<Rightarrow> string \<Rightarrow> bool" where
  "startsWith s p = (take (length p) s = p)"

definition substring_from :: "string \<Rightarrow> nat \<Rightarrow> string" where
  "substring_from s n = drop n s"

definition lower_char :: "char \<Rightarrow> char" where
  "lower_char c =
     (case map_of (zip ''ABCDEFGHIJKLMNOPQRSTUVWXYZ'' ''abcdefghijklmnopqrstuvwxyz'') c of
        None \<Rightarrow> c
      | Some l \<Rightarrow> l)"

definition toLowerCase :: "string \<Rightarrow> string" where
  "toLowerCase s = map lower_char s"

definition digit_char :: "nat \<Rightarrow> char" where
  "digit_char d = ''0123456789'' ! (d mod 10)"

function showNat :: "nat \<Rightarrow> string" where
  "showNat n = (if n < 10 then [digit_char n] else showNat (n div 10) @ [digit_char (n mod 10)])"
  by pat_completeness auto
termination
  by (relation "measure (\<lambda>n. n)") auto

declare showNat.simps [simp del]


definition b64chars :: string where
  "b64chars = ''ABCDEFGHIJKLMNOPQRSTUVWXYZabcdefghijklmnopqrstuvwxyz0123456789+/''"

definition b64 :: "nat \<Rightarrow> char" where
  "b64 i = b64chars ! (i mod 64)"

text \<open>\<open>Buffer.prototype.toString('base64')\<close> of the runtime, on a list of byte values.\<close>

fun base64 :: "nat list \<Rightarrow> string" where
  "base64 [] = []"
| "base64 [a] = [b64 (a div 4), b64 ((a mod 4) * 16), CHR ''='', CHR ''='']"
| "base64 [a, b] =
     [b64 (a div 4), b64 ((a mod 4) * 16 + b div 16), b64 ((b mod 16) * 4), CHR ''='']"
| "base64 (a # b # c # rest) =
     [b64 (a div 4), b64 ((a mod 4) * 16 + b div 16), b64 ((b mod 16) * 4 + c div 64), b64 c]
     @ base64 rest"

section \<open>safeSerialize\<close>

text \<open>
  \<open>WhatsAppInstance.safeSerialize\<close> is \<open>JSON.parse(JSON.stringify(obj, replacer))\<close> inside a
  \<open>try\<close>. \<open>JSON.stringify\<close> visits a property in three steps: it calls the value's
  \<open>toJSON\<close> when it has one (of the values above only a \<open>Buffer\<close> has), then the replacer,
  then it serialises what the replacer returned, descending into arrays and objects.
\<close>

fun toJSON_step :: "jsval \<Rightarrow> jsval" where
  "toJSON_step (JBuffer bs) =
     JObject [(''type'', JStr ''Buffer''), (''data'', JArray (map (\<lambda>b. JNum (int b)) bs))]"
| "toJSON_step v = v"

text \<open>
  The replacer of the source, branch by branch and in its order. A \<open>Buffer\<close> is an instance
  of \<open>Uint8Array\<close>, so the first test holds for it as well.
\<close>

fun instanceof_Uint8Array :: "jsval \<Rightarrow> bool" where
  "instanceof_Uint8Array (JUint8Array _) = True"
| "instanceof_Uint8Array (JBuffer _) = True"
| "instanceof_Uint8Array _ = False"

fun isBuffer :: "jsval \<Rightarrow> bool" where
  "isBuffer (JBuffer _) = True"
| "isBuffer _ = False"

fun bytes_of :: "jsval \<Rightarrow> nat list" where
  "bytes_of (JUint8Array bs) = bs"
| "bytes_of (JBuffer bs) = bs"
| "bytes_of _ = []"

fun function_name :: "jsval \<Rightarrow> string" where
  "function_name (JFunction n) = n"
| "function_name _ = []"

fun is_plain_or_array :: "jsval \<Rightarrow> bool" where
  "is_plain_or_array (JObject _) = True"
| "is_plain_or_array (JArray _) = True"
| "is_plain_or_array JCircular = True"
| "is_plain_or_array _ = False"

fun exotic_toString :: "jsval \<Rightarrow> string" where
  "exotic_toString (JExotic s) = s"
| "exotic_toString _ = ''[object Object]''"

definition replacer :: "jsval \<Rightarrow> jsval" where
  "replacer v =
     (if instanceof_Uint8Array v then
        JObject [(''__type'', JStr ''Uint8Array''),
                 (''data'', JArray (map (\<lambda>b. JNum (int b)) (bytes_of v)))]
      else if typeof v = ''function'' then
        JObject [(''__type'', JStr ''Function''),
                 (''name'', JStr (if function_name v \<noteq> [] then function_name v else ''anonymous''))]
      else if isBuffer v then
        JObject [(''__type'', JStr ''Buffer''), (''data'', JStr (base64 (bytes_of v)))]
      else if truthy v \<and> typeof v = ''object'' then
        (if is_plain_or_array v then v
         else JObject [(''__type'', JStr ''ComplexObject''), (''toString'', JStr (exotic_toString v))])
      else v)"

text \<open>
  A bound for the recursion of \<open>JSON.stringify\<close>: what the replacer returns is never
  heavier than the value it was given.
\<close>

fun weight :: "jsval \<Rightarrow> nat"
  and weights :: "jsval list \<Rightarrow> nat"
  and weights_props :: "(string \<times> jsval) list \<Rightarrow> nat" where
  "weight (JArray xs) = Suc (weights xs)"
| "weight (JObject kvs) = Suc (weights_props kvs)"
| "weight (JUint8Array bs) = length bs + 5"
| "weight (JBuffer bs) = length bs + 5"
| "weight (JFunction n) = 5"
| "weight (JExotic s) = 5"
| "weight JUndefined = 1"
| "weight JNull = 1"
| "weight (JBool b) = 1"
| "weight (JNum n) = 1"
| "weight (JStr s) = 1"
| "weight (JBigInt n) = 1"
| "weight JCircular = 1"
| "weights [] = 0"
| "weights (x # xs) = weight x + weights xs"
| "weights_props [] = 0"
| "weights_props (kv # kvs) = weight (snd kv) + weights_props kvs"

lemma weights_nums: "weights (map (\<lambda>b. JNum (int b)) bs) = length bs"
  by (induction bs) simp_all

lemma weight_replacer: "weight (replacer (toJSON_step v)) \<le> weight v"
  by (cases v) (simp_all add: replacer_def weights_nums)

text \<open>
  Serialising one property value: \<open>Inl\<close> is the message of the \<open>TypeError\<close> that
  \<open>JSON.stringify\<close> throws, \<open>Inr None\<close> is \<open>undefined\<close> (the property is left out of an
  object and written \<open>null\<close> in an array), \<open>Inr (Some j)\<close> is the value that
  \<open>JSON.parse\<close> reads back. The replacer returns no function, typed array, \<open>Buffer\<close> or
  exotic object (lemma \<open>replacer_returns_plain\<close> below), so the cases for these are never
  taken.
\<close>

function ser :: "jsval \<Rightarrow> string + jsval option"
  and ser_elems :: "jsval list \<Rightarrow> string + jsval list"
  and ser_props :: "(string \<times> jsval) list \<Rightarrow> string + (string \<times> jsval) list" where
  "ser v =
     (case replacer (toJSON_step v) of
        JUndefined \<Rightarrow> Inr None
      | JFunction n \<Rightarrow> Inr None
      | JNull \<Rightarrow> Inr (Some JNull)
      | JBool b \<Rightarrow> Inr (Some (JBool b))
      | JNum n \<Rightarrow> Inr (Some (JNum n))
      | JStr s \<Rightarrow> Inr (Some (JStr s))
      | JBigInt n \<Rightarrow> Inl ''Do not know how to serialize a BigInt''
      | JCircular \<Rightarrow> Inl ''Converting circular structure to JSON''
      | JArray xs \<Rightarrow> (case ser_elems xs of Inl e \<Rightarrow> Inl e | Inr js \<Rightarrow> Inr (Some (JArray js)))
      | JObject kvs \<Rightarrow> (case ser_props kvs of Inl e \<Rightarrow> Inl e | Inr ps \<Rightarrow> Inr (Some (JObject ps)))
      | JUint8Array bs \<Rightarrow> Inr (Some (JObject []))
      | JBuffer bs \<Rightarrow> Inr (Some (JObject []))
      | JExotic s \<Rightarrow> Inr (Some (JObject [])))"
| "ser_elems [] = Inr []"
| "ser_elems (x # xs) =
     (case ser x of
        Inl e \<Rightarrow> Inl e
      | Inr r \<Rightarrow>
          (case ser_elems xs of
             Inl e \<Rightarrow> Inl e
           | Inr js \<Rightarrow> Inr ((case r of None \<Rightarrow> JNull | Some j \<Rightarrow> j) # js)))"
| "ser_props [] = Inr []"
| "ser_props (kv # kvs) =
     (case ser (snd kv) of
        Inl e \<Rightarrow> Inl e
      | Inr r \<Rightarrow>
          (case ser_props kvs of
             Inl e \<Rightarrow> Inl e
           | Inr ps \<Rightarrow> Inr ((case r of None \<Rightarrow> [] | Some j \<Rightarrow> [(fst kv, j)]) @ ps)))"
  by pat_completeness auto
termination
proof (relation "measure (\<lambda>x. case x of
          Inl v \<Rightarrow> 2 * weight v
        | Inr (Inl xs) \<Rightarrow> 2 * weights xs + 1
        | Inr (Inr kvs) \<Rightarrow> 2 * weights_props kvs + 1)", goal_cases)
  case 1
  show ?case by simp
next
  case (2 v xs)
  have "weight (JArray xs) \<le> weight v"
    using weight_replacer [of v] 2 by simp
  then show ?case by simp
next
  case (3 v kvs)
  have "weight (JObject kvs) \<le> weight v"
    using weight_replacer [of v] 3 by simp
  then show ?case by simp
next
  case (4 x xs)
  show ?case by (cases x) simp_all
next
  case (5 x xs)
  show ?case by (cases x) simp_all
next
  case (6 kv kvs)
  show ?case by (cases "snd kv") simp_all
next
  case (7 kv kvs)
  show ?case by (cases "snd kv") simp_all
qed

declare ser.simps(1) [simp del]





section \<open>Recipient formatting of the outbound sends\<close>

text \<open>
  \<open>sendMessage\<close> and \<open>sendMediaMessage\<close> format the recipient with the same statements:
  \<open>phoneNumber.replace(/[^\d]/g, '')\<close>, then the two \<open>startsWith\<close> tests.
\<close>

definition stripNonDigits :: "string \<Rightarrow> string" where
  "stripNonDigits s = filter isDigit s"

definition formatNumber :: "string \<Rightarrow> string" where
  "formatNumber phoneNumber =
     (let formattedNumber = stripNonDigits phoneNumber in
      if \<not> startsWith formattedNumber ''62'' then
        (if startsWith formattedNumber ''0'' then ''62'' @ substring_from formattedNumber 1
         else ''62'' @ formattedNumber)
      else formattedNumber)"

definition personal_jid :: "string \<Rightarrow> string" where
  "personal_jid formattedNumber = formattedNumber @ ''@s.whatsapp.net''"

section \<open>Data model\<close>

text \<open>
  A persisted Instance row. \<open>row_pluginConfig\<close> is the stored override object; where the
  controllers store it as JSON text, the row holds the value that text parses to.
\<close>

record instance_row =
  row_id :: string
  row_phone :: string
  row_name :: string
  row_alias :: "string option"
  row_status :: string
  row_pluginConfig :: jsval

record webhook =
  wh_id :: string
  wh_instanceId :: string
  wh_event :: string
  wh_url :: string
  wh_isEnabled :: bool

record http_response =
  resp_status :: int
  resp_statusText :: string
  resp_headers :: "(string \<times> string) list"
  resp_data :: jsval

text \<open>The error object an \<open>axios\<close> call rejects with: \<open>error.code\<close>, \<open>error.response\<close>, \<open>error.message\<close>.\<close>

record axios_error =
  err_code :: "string option"
  err_response :: "http_response option"
  err_message :: string

datatype axios_outcome = Resolved http_response | Rejected axios_error

record payload =
  p_event :: string
  p_data :: jsval
  p_timestamp :: nat
  p_instanceId :: string

text \<open>
  The object \<open>triggerWebhooks\<close> hands to \<open>webhookHistoryService.create\<close>. A field that the
  source leaves \<open>undefined\<close> is \<open>None\<close>. The dispatcher sets no \<open>triggeredAt\<close>: that
  column is filled by the store.
\<close>

record history_row =
  h_instanceId :: string
  h_webhookId :: string
  h_event :: string
  h_payload :: payload
  h_status :: string
  h_retryCount :: nat
  h_httpStatusCode :: "int option"
  h_responseTime :: "nat option"
  h_response :: "http_response option"
  h_errorMessage :: "string option"
  h_completedAt :: "nat option"

subsection \<open>Plugins\<close>

datatype handler_outcome = Fulfilled | RejectedWith string

record plugin_config =
  cfg_enabled :: bool
  cfg_description :: "string option"

text \<open>The \<open>props\<close> a handler is called with: \<open>{enabled: isEnabled, sock, message, ...defaultConfig}\<close>.\<close>

record plugin_props =
  pp_enabled :: jsval
  pp_message :: jsval
  pp_description :: "string option"

text \<open>
  A plugin module exports an \<open>async\<close> handler, so a failure inside it is a rejected promise,
  and an optional \<open>config\<close>.
\<close>

record plugin =
  handler :: "plugin_props \<Rightarrow> handler_outcome"
  config :: "plugin_config option"

record plugin_manager =
  plugins :: "(string \<times> plugin) list"
  pluginConfigs :: "(string \<times> plugin_config) list"
  instancePluginConfig :: jsval

subsection \<open>The instance object\<close>

text \<open>The socket of the chat transport; \<open>user_id\<close> is \<open>sock.user?.id\<close>, the bound identity.\<close>

record wa_socket =
  user_id :: "string option"

record whatsapp_instance =
  instanceData :: instance_row
  sock :: "wa_socket option"
  isConnected :: bool
  connectionStatus :: string
  qrCode :: "string option"
  authDir :: string
  pluginManager :: plugin_manager
  reconnectAttempts :: nat
  maxReconnectAttempts :: nat
  isManualRestart :: bool

definition new_PluginManager :: "instance_row \<Rightarrow> plugin_manager" where
  "new_PluginManager instanceData' =
     \<lparr>plugins = [], pluginConfigs = [],
      instancePluginConfig =
        (if truthy (row_pluginConfig instanceData') then row_pluginConfig instanceData'
         else JObject [])\<rparr>"

definition new_WhatsAppInstance :: "instance_row \<Rightarrow> whatsapp_instance" where
  "new_WhatsAppInstance instanceData' =
     \<lparr>instanceData = instanceData', sock = None, isConnected = False,
      connectionStatus = ''disconnected'', qrCode = None,
      authDir = row_phone instanceData',
      pluginManager = new_PluginManager instanceData',
      reconnectAttempts = 0, maxReconnectAttempts = 5, isManualRestart = False\<rparr>"

subsection \<open>The environment\<close>

text \<open>
  What the process cannot decide: the outcome and duration of an HTTP POST, whether a call
  that the source guards with its own \<open>try\<close> throws (and with which message), and what the
  chat transport answers to a send. Each is asked by the number of the interaction, counted
  by \<open>tick\<close>. \<open>loggedOut\<close> is the transport library's \<open>DisconnectReason.loggedOut\<close>;
  \<open>watermark\<close> is the text the sends append, built from the name and author of
  \<open>package.json\<close>.
\<close>

record delivery =
  outcome :: axios_outcome
  elapsed :: nat

record env =
  http :: "nat \<Rightarrow> string \<Rightarrow> delivery"
  io_error :: "nat \<Rightarrow> string option"
  transport_reply :: "nat \<Rightarrow> string + string"
  loggedOut :: int
  watermark :: string

subsection \<open>The world\<close>

text \<open>
  Process memory (the instance objects by reference, the manager's map from phone to
  reference, the pending reconnect timers), the persistent store, the credential directories
  (named by phone), the plugin directory, and what the process did to the outside: the
  \<open>error\<close> and \<open>warn\<close> lines of the logger, the POSTs issued, the handler calls, the
  transport calls. \<open>clock\<close> is \<open>Date.now()\<close>; only a POST lets it advance.
\<close>

record world =
  heap :: "nat \<Rightarrow> whatsapp_instance"
  next_ref :: nat
  instances :: "string \<Rightarrow> nat option"
  timers :: "nat list"
  db_instances :: "instance_row list"
  db_webhooks :: "webhook list"
  db_messages :: "jsval list"
  db_history :: "history_row list"
  db_instance_logs :: "(string \<times> string \<times> string) list"
  next_id :: nat
  auth_dirs :: "string set"
  plugin_modules :: "(string \<times> plugin) list"
  logger :: "(string \<times> string) list"
  posts :: "(string \<times> payload) list"
  plugin_calls :: "(string \<times> plugin_props) list"
  transport_calls :: "(string \<times> string \<times> jsval) list"
  clock :: nat
  tick :: nat

definition upd_obj :: "nat \<Rightarrow> (whatsapp_instance \<Rightarrow> whatsapp_instance) \<Rightarrow> world \<Rightarrow> world" where
  "upd_obj r f w = w\<lparr>heap := (heap w)(r := f (heap w r))\<rparr>"

definition log_line :: "string \<Rightarrow> string \<Rightarrow> world \<Rightarrow> world" where
  "log_line level text w = w\<lparr>logger := logger w @ [(level, text)]\<rparr>"

definition row_js :: "instance_row \<Rightarrow> jsval" where
  "row_js row =
     JObject [(''id'', JStr (row_id row)), (''phone'', JStr (row_phone row)),
              (''name'', JStr (row_name row)),
              (''alias'', (case row_alias row of None \<Rightarrow> JNull | Some a \<Rightarrow> JStr a)),
              (''status'', JStr (row_status row)),
              (''pluginConfig'', row_pluginConfig row)]"

section \<open>Store adapters\<close>

text \<open>
  The Instance table is read and written on an available store: an operation throws only
  where Prisma does for the data at hand (an update or delete of a row that is not there, a
  second row with a phone that \<open>findUnique\<close> treats as unique).
\<close>

definition findByPhone :: "string \<Rightarrow> world \<Rightarrow> instance_row option" where
  "findByPhone phone w = find (\<lambda>row. row_phone row = phone) (db_instances w)"

definition instanceService_updateStatus :: "string \<Rightarrow> string \<Rightarrow> world \<Rightarrow> string option \<times> world" where
  "instanceService_updateStatus id' status w =
     (if id' \<in> set (map row_id (db_instances w)) then
        (None, w\<lparr>db_instances :=
                   map (\<lambda>row. if row_id row = id' then row\<lparr>row_status := status\<rparr> else row)
                     (db_instances w)\<rparr>)
      else (Some ''Record to update not found'', w))"

text \<open>
  \<open>instanceService.create\<close>: \<open>status: data.status || 'inactive'\<close>,
  \<open>pluginConfig: data.pluginConfig || {}\<close>; the store assigns the id.
\<close>

definition instanceService_create ::
  "string \<Rightarrow> string \<Rightarrow> string option \<Rightarrow> world \<Rightarrow> (string + instance_row) \<times> world" where
  "instanceService_create phone name' alias w =
     (if phone \<in> set (map row_phone (db_instances w)) then
        (Inl ''Unique constraint failed on the fields: (phone)'', w)
      else
        (let row = \<lparr>row_id = showNat (next_id w), row_phone = phone, row_name = name',
                     row_alias = alias, row_status = ''inactive'',
                     row_pluginConfig = JObject []\<rparr>
         in (Inr row, w\<lparr>db_instances := db_instances w @ [row], next_id := Suc (next_id w)\<rparr>)))"

text \<open>
  Modelled from the spec: the schema that declares the cascade is not in the source tree;
  invariant I2 of the specification says that deleting an Instance removes the Message,
  Webhook, Webhook-history and Instance-log rows that refer to it.
\<close>

definition instanceService_delete :: "string \<Rightarrow> world \<Rightarrow> string option \<times> world" where
  "instanceService_delete id' w =
     (if id' \<in> set (map row_id (db_instances w)) then
        (None, w\<lparr>db_instances := filter (\<lambda>row. row_id row \<noteq> id') (db_instances w),
                 db_webhooks := filter (\<lambda>h. wh_instanceId h \<noteq> id') (db_webhooks w),
                 db_messages := filter (\<lambda>m. js_get m ''instanceId'' \<noteq> JStr id') (db_messages w),
                 db_history := filter (\<lambda>h. h_instanceId h \<noteq> id') (db_history w),
                 db_instance_logs := filter (\<lambda>l. fst l \<noteq> id') (db_instance_logs w)\<rparr>)
      else (Some ''Record to delete does not exist'', w))"

definition instanceLogService_create :: "string \<Rightarrow> string \<Rightarrow> string \<Rightarrow> world \<Rightarrow> world" where
  "instanceLogService_create instanceId level text w =
     w\<lparr>db_instance_logs := db_instance_logs w @ [(instanceId, level, text)]\<rparr>"

definition getEnabledWebhooks :: "string \<Rightarrow> string \<Rightarrow> world \<Rightarrow> webhook list" where
  "getEnabledWebhooks instanceId event w =
     filter (\<lambda>h. wh_instanceId h = instanceId \<and> wh_event h = event \<and> wh_isEnabled h)
       (db_webhooks w)"

section \<open>Webhook dispatcher\<close>

text \<open>
  One turn of the \<open>for\<close> loop of \<open>triggerWebhooks\<close>. \<open>attempt_row\<close> is the pair of the
  \<open>try\<close> block (the POST resolved) and the \<open>catch\<close> block (it rejected) that fill
  \<open>historyData\<close>; \<open>now\<close> is the clock after the POST.
\<close>

definition attempt_row :: "history_row \<Rightarrow> axios_outcome \<Rightarrow> nat \<Rightarrow> nat \<Rightarrow> history_row" where
  "attempt_row historyData result responseTime now =
     (case result of
        Resolved response \<Rightarrow>
          historyData\<lparr>h_status := ''success'',
                      h_httpStatusCode := Some (resp_status response),
                      h_responseTime := Some responseTime,
                      h_response := Some response,
                      h_completedAt := Some now\<rparr>
      | Rejected error \<Rightarrow>
          (let status = (if err_code error = Some ''ECONNABORTED'' then ''timeout'' else ''failed'');
               httpStatusCode =
                 (if err_code error = Some ''ECONNABORTED'' then None
                  else map_option resp_status (err_response error));
               response =
                 (if err_code error = Some ''ECONNABORTED'' then None else err_response error)
           in historyData\<lparr>h_status := status,
                          h_httpStatusCode := httpStatusCode,
                          h_responseTime := Some responseTime,
                          h_response := response,
                          h_errorMessage := Some (err_message error),
                          h_completedAt := Some now\<rparr>))"

definition deliver :: "env \<Rightarrow> string \<Rightarrow> string \<Rightarrow> jsval \<Rightarrow> webhook \<Rightarrow> world \<Rightarrow> world" where
  "deliver e instanceId event data wh w =
     (let startTime = clock w;
          payload = \<lparr>p_event = event, p_data = data, p_timestamp = clock w,
                     p_instanceId = instanceId\<rparr>;
          historyData = \<lparr>h_instanceId = instanceId, h_webhookId = wh_id wh, h_event = event,
                         h_payload = payload, h_status = ''pending'', h_retryCount = 0,
                         h_httpStatusCode = None, h_responseTime = None, h_response = None,
                         h_errorMessage = None, h_completedAt = None\<rparr>;
          d = http e (tick w) (wh_url wh);
          w1 = w\<lparr>posts := posts w @ [(wh_url wh, payload)],
                 clock := clock w + elapsed d, tick := Suc (tick w)\<rparr>;
          responseTime = clock w1 - startTime;
          historyData' = attempt_row historyData (outcome d) responseTime (clock w1);
          w2 = (case outcome d of
                  Resolved response \<Rightarrow> w1
                | Rejected error \<Rightarrow>
                    log_line ''error''
                      (''Failed to trigger webhook '' @ wh_id wh @ '' for '' @ event @ '': ''
                         @ err_message error @ '' ('' @ showNat responseTime @ ''ms)'') w1);
          w3 = w2\<lparr>tick := Suc (tick w2)\<rparr>
      in case io_error e (tick w2) of
           None \<Rightarrow> w3\<lparr>db_history := db_history w3 @ [historyData']\<rparr>
         | Some historyError \<Rightarrow>
             log_line ''error''
               (''Failed to save webhook history for '' @ wh_id wh @ '': '' @ historyError) w3)"

fun deliver_all :: "env \<Rightarrow> string \<Rightarrow> string \<Rightarrow> jsval \<Rightarrow> webhook list \<Rightarrow> world \<Rightarrow> world" where
  "deliver_all e instanceId event data [] w = w"
| "deliver_all e instanceId event data (wh # whs) w =
     deliver_all e instanceId event data whs (deliver e instanceId event data wh w)"

text \<open>
  \<open>triggerWebhooks(event, data)\<close> of the instance at reference \<open>r\<close>. The outer \<open>try\<close>
  receives a failing subscription lookup; nothing inside the loop throws past its own
  \<open>try\<close> blocks.
\<close>

definition triggerWebhooks :: "env \<Rightarrow> nat \<Rightarrow> string \<Rightarrow> jsval \<Rightarrow> world \<Rightarrow> world" where
  "triggerWebhooks e r event data w =
     (let this = heap w r;
          w1 = w\<lparr>tick := Suc (tick w)\<rparr>
      in case io_error e (tick w) of
           Some error \<Rightarrow>
             log_line ''error''
               (''Error triggering webhooks for '' @ row_phone (instanceData this) @ '': '' @ error) w1
         | None \<Rightarrow>
             deliver_all e (row_id (instanceData this)) event data
               (getEnabledWebhooks (row_id (instanceData this)) event w1) w1)"

section \<open>Plugin chain\<close>

text \<open>\<open>Map.prototype.set\<close> on a map kept in insertion order.\<close>

definition map_set :: "'k \<Rightarrow> 'v \<Rightarrow> ('k \<times> 'v) list \<Rightarrow> ('k \<times> 'v) list" where
  "map_set k v kvs =
     (if k \<in> set (map fst kvs) then map (\<lambda>kv. if fst kv = k then (k, v) else kv) kvs
      else kvs @ [(k, v)])"

text \<open>
  \<open>loadPlugins\<close>, over the modules of the plugin directory that load:
  \<open>plugin.config || { enabled: true }\<close> becomes the default configuration.
\<close>

fun load_modules :: "(string \<times> plugin) list \<Rightarrow> plugin_manager \<Rightarrow> plugin_manager" where
  "load_modules [] pm = pm"
| "load_modules ((pluginName, plugin') # files) pm =
     load_modules files
       (pm\<lparr>plugins := map_set pluginName plugin' (plugins pm),
           pluginConfigs :=
             map_set pluginName
               (case config plugin' of
                  None \<Rightarrow> \<lparr>cfg_enabled = True, cfg_description = None\<rparr>
                | Some c \<Rightarrow> c)
               (pluginConfigs pm)\<rparr>)"

definition loadPlugins :: "nat \<Rightarrow> world \<Rightarrow> world" where
  "loadPlugins r w =
     upd_obj r (\<lambda>this. this\<lparr>pluginManager := load_modules (plugin_modules w) (pluginManager this)\<rparr>) w"





section \<open>Inbound pipeline\<close>

definition js_or :: "jsval \<Rightarrow> jsval \<Rightarrow> jsval" where
  "js_or a b = (if truthy a then a else b)"










section \<open>Instance lifecycle\<close>

text \<open>
  A handler is run to its end before the next event is taken. Its result is the world it
  leaves and, when an exception escapes it, the message of that exception.
  \<open>then_do\<close> is the sequencing of two statements of which the first may throw.
\<close>

definition then_do ::
  "string option \<times> world \<Rightarrow> (world \<Rightarrow> string option \<times> world) \<Rightarrow> string option \<times> world" where
  "then_do x f = (case x of (Some error, w) \<Rightarrow> (Some error, w) | (None, w) \<Rightarrow> f w)"

text \<open>
  The \<open>try\<close> block of \<open>initialize\<close>. Opening the auth state and creating the socket is one
  guarded interaction with the outside.
\<close>

definition initialize_try :: "env \<Rightarrow> nat \<Rightarrow> world \<Rightarrow> string option \<times> world" where
  "initialize_try e r w =
     then_do (instanceService_updateStatus (row_id (instanceData (heap w r))) ''connecting'' w)
       (\<lambda>w1.
          (let w2 = w1\<lparr>auth_dirs := insert (authDir (heap w1 r)) (auth_dirs w1)\<rparr>;
               w3 = loadPlugins r w2;
               w4 = w3\<lparr>tick := Suc (tick w3)\<rparr>
           in case io_error e (tick w3) of
                Some error \<Rightarrow> (Some error, w4)
              | None \<Rightarrow>
                  (None,
                   instanceLogService_create (row_id (instanceData (heap w4 r))) ''info''
                     ''WhatsApp instance initialized''
                     (upd_obj r (\<lambda>this. this\<lparr>sock := Some \<lparr>user_id = None\<rparr>\<rparr>) w4))))"

definition initialize :: "env \<Rightarrow> nat \<Rightarrow> world \<Rightarrow> string option \<times> world" where
  "initialize e r w =
     (case initialize_try e r w of
        (None, w1) \<Rightarrow> (None, w1)
      | (Some error, w1) \<Rightarrow>
          (let this = heap w1 r;
               w2 = log_line ''error''
                      (''Error initializing WhatsApp instance '' @ row_phone (instanceData this)) w1;
               w3 = instanceLogService_create (row_id (instanceData this)) ''error''
                      (''Error initializing WhatsApp instance: '' @ error) w2;
               w4 = upd_obj r (\<lambda>this. this\<lparr>connectionStatus := ''error''\<rparr>) w3
           in instanceService_updateStatus (row_id (instanceData this)) ''error'' w4))"

text \<open>\<open>disconnect\<close>: log out (a failure is logged), then mark the row inactive.\<close>

definition disconnect :: "env \<Rightarrow> nat \<Rightarrow> world \<Rightarrow> string option \<times> world" where
  "disconnect e r w =
     (let this = heap w r;
          w1 = (case sock this of
                  None \<Rightarrow> w
                | Some s \<Rightarrow>
                    (let w' = w\<lparr>transport_calls :=
                                   transport_calls w @ [(row_phone (instanceData this), ''logout'', JNull)],
                                 tick := Suc (tick w)\<rparr>
                     in case io_error e (tick w) of
                          None \<Rightarrow> w'
                        | Some error \<Rightarrow>
                            log_line ''error''
                              (''Error logging out instance '' @ row_phone (instanceData this)) w'));
          w2 = upd_obj r (\<lambda>this. this\<lparr>isConnected := False, connectionStatus := ''disconnected''\<rparr>) w1
      in instanceService_updateStatus (row_id (instanceData this)) ''inactive'' w2)"

text \<open>\<open>close\<close>: close the socket without logging out; the persisted status is not touched.\<close>

definition close_instance :: "env \<Rightarrow> nat \<Rightarrow> world \<Rightarrow> world" where
  "close_instance e r w =
     (let this = heap w r;
          w1 = (case sock this of
                  None \<Rightarrow> w
                | Some s \<Rightarrow>
                    (let w' = w\<lparr>transport_calls :=
                                   transport_calls w @ [(row_phone (instanceData this), ''ws.close'', JNull)],
                                 tick := Suc (tick w)\<rparr>
                     in case io_error e (tick w) of
                          None \<Rightarrow> w'
                        | Some error \<Rightarrow>
                            log_line ''error''
                              (''Error closing connection for '' @ row_phone (instanceData this)) w'))
      in upd_obj r (\<lambda>this. this\<lparr>isConnected := False, connectionStatus := ''disconnected''\<rparr>) w1)"

subsection \<open>Instance manager\<close>

text \<open>
  \<open>deleteInstance(phone, keepDatabaseRecord)\<close>: the body is one \<open>try\<close> whose \<open>catch\<close> logs
  and throws again.
\<close>

definition deleteInstance_try :: "env \<Rightarrow> string \<Rightarrow> bool \<Rightarrow> world \<Rightarrow> string option \<times> world" where
  "deleteInstance_try e phone keepDatabaseRecord w =
     then_do
       (case instances w phone of
          Some instance \<Rightarrow>
            then_do (disconnect e instance w)
              (\<lambda>w1. (None, w1\<lparr>instances := (instances w1)(phone := None)\<rparr>))
        | None \<Rightarrow> (None, w))
       (\<lambda>w1.
          then_do
            (if \<not> keepDatabaseRecord then
               (case findByPhone phone w1 of
                  Some dbInstance \<Rightarrow> instanceService_delete (row_id dbInstance) w1
                | None \<Rightarrow> (None, w1))
             else (None, w1))
            (\<lambda>w2. (None, w2\<lparr>auth_dirs := auth_dirs w2 - {phone}\<rparr>)))"

definition deleteInstance :: "env \<Rightarrow> string \<Rightarrow> bool \<Rightarrow> world \<Rightarrow> string option \<times> world" where
  "deleteInstance e phone keepDatabaseRecord w =
     (case deleteInstance_try e phone keepDatabaseRecord w of
        (None, w1) \<Rightarrow> (None, w1)
      | (Some error, w1) \<Rightarrow>
          (Some error,
           log_line ''error''
             (''Error '' @ (if keepDatabaseRecord then ''cleaning up'' else ''deleting'')
                @ '' WhatsApp instance '' @ phone) w1))"

text \<open>\<open>WhatsAppInstanceManager.createInstance\<close>: persist, construct, register, start.\<close>

definition manager_createInstance ::
  "env \<Rightarrow> string \<Rightarrow> string \<Rightarrow> string option \<Rightarrow> world \<Rightarrow> (string + instance_row) \<times> world" where
  "manager_createInstance e phone name' alias w =
     (case instanceService_create phone name' alias w of
        (Inl error, w1) \<Rightarrow> (Inl error, log_line ''error'' ''Error creating WhatsApp instance'' w1)
      | (Inr dbInstance, w1) \<Rightarrow>
          (let instance = next_ref w1;
               w2 = w1\<lparr>heap := (heap w1)(instance := new_WhatsAppInstance dbInstance),
                      next_ref := Suc instance,
                      instances := (instances w1)(row_phone dbInstance \<mapsto> instance)\<rparr>
           in case initialize e instance w2 of
                (Some error, w3) \<Rightarrow>
                  (Inl error, log_line ''error'' ''Error creating WhatsApp instance'' w3)
              | (None, w3) \<Rightarrow> (Inr dbInstance, w3)))"

text \<open>
  \<open>restartInstance\<close> in its two halves, before and after the pause of one second during
  which the transport may deliver its \<open>close\<close> event.
\<close>

definition restartInstance_begin :: "env \<Rightarrow> string \<Rightarrow> world \<Rightarrow> string option \<times> world" where
  "restartInstance_begin e phone w =
     (case instances w phone of
        None \<Rightarrow> (Some (''WhatsApp instance '' @ phone @ '' not found''), w)
      | Some instance \<Rightarrow>
          (None, close_instance e instance (upd_obj instance (\<lambda>this. this\<lparr>isManualRestart := True\<rparr>) w)))"

definition restartInstance_resume :: "env \<Rightarrow> nat \<Rightarrow> world \<Rightarrow> string option \<times> world" where
  "restartInstance_resume e instance w = initialize e instance w"

subsection \<open>The \<open>connection.update\<close> handler\<close>

record connection_update =
  upd_connection :: "string option"
  upd_statusCode :: "int option"
  upd_errorMessage :: "string option"
  upd_qr :: "string option"

definition opt_num :: "int option \<Rightarrow> jsval" where
  "opt_num x = (case x of None \<Rightarrow> JUndefined | Some n \<Rightarrow> JNum n)"

definition opt_str :: "string option \<Rightarrow> jsval" where
  "opt_str x = (case x of None \<Rightarrow> JUndefined | Some t \<Rightarrow> JStr t)"

text \<open>The \<open>if (qr)\<close> block.\<close>

definition on_qr :: "env \<Rightarrow> nat \<Rightarrow> string \<Rightarrow> world \<Rightarrow> string option \<times> world" where
  "on_qr e r qr w =
     (let w1 = upd_obj r (\<lambda>this. this\<lparr>qrCode := Some qr, connectionStatus := ''qr_ready''\<rparr>) w
      in then_do (instanceService_updateStatus (row_id (instanceData (heap w1 r))) ''qr_ready'' w1)
           (\<lambda>w2.
              (None,
               triggerWebhooks e r ''connection.update''
                 (JObject [(''status'', JStr ''qr_ready''), (''qrCode'', JStr qr),
                           (''instance'', row_js (instanceData (heap w2 r))),
                           (''timestamp'', JNum (int (clock w2))),
                           (''message'', JStr ''QR Code generated. Scan to connect.'')]) w2)))"

text \<open>
  The \<open>connection === 'close'\<close> block. \<open>statusCode\<close> is
  \<open>lastDisconnect?.error?.output?.statusCode\<close>, \<open>errorMessage\<close> is
  \<open>lastDisconnect?.error?.message\<close>. The reconnect timer is
  \<open>setTimeout(() => this.initialize(), 5000)\<close>.
\<close>

definition on_close :: "env \<Rightarrow> nat \<Rightarrow> int option \<Rightarrow> string option \<Rightarrow> world \<Rightarrow> string option \<times> world" where
  "on_close e r statusCode errorMessage w =
     (let this = heap w r;
          shouldReconnect = (statusCode \<noteq> Some (loggedOut e));
          disconnectReason = statusCode;
          isStreamError = (disconnectReason = Some 515);
          wasManualRestart = (isManualRestart this \<and> \<not> isStreamError);
          w0 = upd_obj r (\<lambda>this. this\<lparr>isManualRestart := False\<rparr>) w
      in if shouldReconnect \<and> reconnectAttempts this < maxReconnectAttempts this
            \<and> \<not> wasManualRestart then
           (let w1 = upd_obj r
                       (\<lambda>this. this\<lparr>reconnectAttempts := Suc (reconnectAttempts this),
                                     connectionStatus := ''reconnecting'',
                                     isConnected := False\<rparr>) w0
            in then_do
                 (instanceService_updateStatus (row_id (instanceData (heap w1 r))) ''reconnecting'' w1)
                 (\<lambda>w2.
                    (let now = heap w2 r;
                         w3 = triggerWebhooks e r ''connection.update''
                                (JObject
                                   [(''status'', JStr ''reconnecting''),
                                    (''instance'', row_js (instanceData now)),
                                    (''timestamp'', JNum (int (clock w2))),
                                    (''reconnectAttempt'', JNum (int (reconnectAttempts now))),
                                    (''maxReconnectAttempts'', JNum (int (maxReconnectAttempts now))),
                                    (''message'',
                                       JStr (''Connection lost. Reconnecting... (attempt ''
                                             @ showNat (reconnectAttempts now) @ ''/''
                                             @ showNat (maxReconnectAttempts now) @ '')'')),
                                    (''disconnectReason'', opt_num disconnectReason),
                                    (''errorMessage'', opt_str errorMessage)]) w2
                     in (None, w3\<lparr>timers := timers w3 @ [r]\<rparr>))))
         else
           then_do
             (if wasManualRestart then
                (let w1 = upd_obj r
                            (\<lambda>this. this\<lparr>connectionStatus := ''disconnected'',
                                          isConnected := False\<rparr>) w0
                 in instanceService_updateStatus (row_id (instanceData (heap w1 r))) ''inactive'' w1)
              else
                then_do
                  (case deleteInstance e (row_phone (instanceData this)) True w0 of
                     (None, w1) \<Rightarrow> (None, w1)
                   | (Some cleanupError, w1) \<Rightarrow>
                       instanceService_updateStatus (row_id (instanceData (heap w1 r))) ''inactive''
                         (log_line ''error''
                            (''Error during logout cleanup for '' @ row_phone (instanceData this)
                               @ '': '' @ cleanupError) w1))
                  (\<lambda>w2.
                     (None,
                      upd_obj r
                        (\<lambda>this. this\<lparr>connectionStatus := ''logged_out'', isConnected := False\<rparr>)
                        w2)))
             (\<lambda>w3.
                (None,
                 triggerWebhooks e r ''connection.update''
                   (JObject
                      [(''status'', JStr (if wasManualRestart then ''manual_restart'' else ''logged_out'')),
                       (''instance'', row_js (instanceData (heap w3 r))),
                       (''timestamp'', JNum (int (clock w3))),
                       (''message'',
                          JStr (if wasManualRestart then ''Connection closed due to manual restart''
                                else ''Logged out or max reconnect attempts reached - auth folder cleaned, restart instance for new QR'')),
                       (''disconnectReason'', opt_num disconnectReason),
                       (''errorMessage'', opt_str errorMessage),
                       (''wasManualRestart'', JBool wasManualRestart),
                       (''authFolderCleaned'', JBool (\<not> wasManualRestart))]) w3)))"

text \<open>The \<open>connection === 'open'\<close> block.\<close>

definition on_open :: "env \<Rightarrow> nat \<Rightarrow> world \<Rightarrow> string option \<times> world" where
  "on_open e r w =
     (let w1 = upd_obj r
                 (\<lambda>this. this\<lparr>connectionStatus := ''connected'', isConnected := True,
                               qrCode := None, reconnectAttempts := 0\<rparr>) w
      in then_do (instanceService_updateStatus (row_id (instanceData (heap w1 r))) ''active'' w1)
           (\<lambda>w2.
              (None,
               triggerWebhooks e r ''connection.update''
                 (JObject [(''status'', JStr ''connected''),
                           (''instance'', row_js (instanceData (heap w2 r))),
                           (''timestamp'', JNum (int (clock w2))),
                           (''message'', JStr ''WhatsApp connection established successfully''),
                           (''previousReconnectAttempts'', JNum (int (reconnectAttempts (heap w2 r))))])
                 w2)))"

text \<open>The \<open>connection === 'connecting'\<close> block.\<close>

definition on_connecting :: "env \<Rightarrow> nat \<Rightarrow> world \<Rightarrow> string option \<times> world" where
  "on_connecting e r w =
     (let w1 = upd_obj r (\<lambda>this. this\<lparr>connectionStatus := ''connecting''\<rparr>) w
      in then_do (instanceService_updateStatus (row_id (instanceData (heap w1 r))) ''connecting'' w1)
           (\<lambda>w2.
              (None,
               triggerWebhooks e r ''connection.update''
                 (JObject [(''status'', JStr ''connecting''),
                           (''instance'', row_js (instanceData (heap w2 r))),
                           (''timestamp'', JNum (int (clock w2))),
                           (''message'', JStr ''Attempting to connect to WhatsApp...'')]) w2)))"

text \<open>The handler: the QR block, the chain on \<open>connection\<close>, the log entry.\<close>

definition connection_update_handler ::
  "env \<Rightarrow> nat \<Rightarrow> connection_update \<Rightarrow> world \<Rightarrow> string option \<times> world" where
  "connection_update_handler e r update w =
     then_do
       (case upd_qr update of
          None \<Rightarrow> (None, w)
        | Some qr \<Rightarrow> (if qr = [] then (None, w) else on_qr e r qr w))
       (\<lambda>w1.
          then_do
            (if upd_connection update = Some ''close'' then
               on_close e r (upd_statusCode update) (upd_errorMessage update) w1
             else if upd_connection update = Some ''open'' then on_open e r w1
             else if upd_connection update = Some ''connecting'' then on_connecting e r w1
             else (None, w1))
            (\<lambda>w2.
               (None,
                instanceLogService_create (row_id (instanceData (heap w2 r))) ''info''
                  (''Connection status changed: ''
                     @ (case upd_connection update of None \<Rightarrow> ''undefined'' | Some c \<Rightarrow> c)) w2)))"

subsection \<open>Events in sequence\<close>

text \<open>
  What happens to the process from outside: the transport delivers a connection update to
  the instance at a reference, a pending reconnect timer of that instance fires, the
  control API asks for a restart of a phone's instance (the first half of
  \<open>restartInstance\<close>), or the pause of a restart ends (its second half). An exception
  that escapes a handler ends that handler only.
\<close>

datatype event =
    ConnectionUpdate nat connection_update
  | TimerFires nat
  | RestartRequested string
  | RestartResumes nat

definition step :: "env \<Rightarrow> event \<Rightarrow> world \<Rightarrow> world" where
  "step e ev w =
     (case ev of
        ConnectionUpdate r update \<Rightarrow> snd (connection_update_handler e r update w)
      | TimerFires r \<Rightarrow>
          (if r \<in> set (timers w) then snd (initialize e r (w\<lparr>timers := remove1 r (timers w)\<rparr>))
           else w)
      | RestartRequested phone \<Rightarrow> snd (restartInstance_begin e phone w)
      | RestartResumes r \<Rightarrow> snd (restartInstance_resume e r w))"


text \<open>The updates the transport sends on a close with a status code, and on an open.\<close>

definition close_update :: "int option \<Rightarrow> string option \<Rightarrow> connection_update" where
  "close_update statusCode errorMessage =
     \<lparr>upd_connection = Some ''close'', upd_statusCode = statusCode,
      upd_errorMessage = errorMessage, upd_qr = None\<rparr>"


section \<open>Control API: create instance\<close>

record reply =
  status_code :: nat
  reply_success :: bool
  reply_error :: "string option"
  reply_data :: "instance_row option"

text \<open>
  The \<open>createInstance\<close> controller. A body field that is absent is \<open>None\<close>; \<open>!phone\<close>
  holds for an absent and for an empty phone, and \<open>alias || null\<close> drops an empty alias. The lookup is made with the phone as it came
  in the request; the digits-only phone is what the manager receives.
\<close>

definition falsy :: "string option \<Rightarrow> bool" where
  "falsy x = (x = None \<or> x = Some [])"

definition controller_createInstance ::
  "env \<Rightarrow> string option \<Rightarrow> string option \<Rightarrow> string option \<Rightarrow> world \<Rightarrow> reply \<times> world" where
  "controller_createInstance e phone name' alias w =
     (case (phone, name') of
        (Some phone', Some name'') \<Rightarrow>
          (if phone' = [] \<or> name'' = [] then
             (\<lparr>status_code = 400, reply_success = False,
               reply_error = Some ''Missing required fields'', reply_data = None\<rparr>, w)
           else
             (case findByPhone phone' w of
                Some existing \<Rightarrow>
                  (\<lparr>status_code = 400, reply_success = False,
                    reply_error = Some ''Instance already exists'', reply_data = None\<rparr>, w)
              | None \<Rightarrow>
                  (case manager_createInstance e (stripNonDigits phone') name''
                          (if falsy alias then None else alias) w of
                     (Inr instance, w1) \<Rightarrow>
                       (\<lparr>status_code = 201, reply_success = True, reply_error = None,
                         reply_data = Some instance\<rparr>, w1)
                   | (Inl error, w1) \<Rightarrow>
                       (\<lparr>status_code = 500, reply_success = False,
                         reply_error = Some ''Failed to create instance'', reply_data = None\<rparr>,
                        log_line ''error'' ''Error creating instance'' w1))))
      | _ \<Rightarrow>
          (\<lparr>status_code = 400, reply_success = False,
            reply_error = Some ''Missing required fields'', reply_data = None\<rparr>, w))"

section \<open>Outbound sends\<close>

text \<open>
  \<open>sendMessage\<close>: the \<open>try\<close> block, then the \<open>catch\<close> that logs and throws again. The
  transport call is recorded with the JID it is given.
\<close>

definition sendMessage_try ::
  "env \<Rightarrow> nat \<Rightarrow> string \<Rightarrow> string \<Rightarrow> world \<Rightarrow> (string + string) \<times> world" where
  "sendMessage_try e r phoneNumber messageText w =
     (let this = heap w r
      in if \<not> isConnected this then
           (Inl (''WhatsApp instance '' @ row_phone (instanceData this) @ '' not connected''), w)
         else
           (let formattedNumber = formatNumber phoneNumber;
                jid = personal_jid formattedNumber;
                finalMessage = messageText @ watermark e;
                w1 = w\<lparr>transport_calls :=
                         transport_calls w @ [(jid, ''sendMessage'', JObject [(''text'', JStr finalMessage)])],
                       tick := Suc (tick w)\<rparr>
            in case transport_reply e (tick w) of
                 Inl error \<Rightarrow> (Inl error, w1)
               | Inr messageId \<Rightarrow>
                   (let messageData =
                          JObject [(''instanceId'', JStr (row_id (instanceData this))),
                                   (''direction'', JStr ''outgoing''),
                                   (''from'', JStr (row_phone (instanceData this))),
                                   (''to'', JStr formattedNumber),
                                   (''type'', JStr ''text''),
                                   (''message'', JObject [(''content'', JStr messageText),
                                                          (''messageId'', JStr messageId)]),
                                   (''status'', JStr ''sent''),
                                   (''sentAt'', JNum (int (clock w1)))];
                        w2 = w1\<lparr>tick := Suc (tick w1)\<rparr>
                    in case io_error e (tick w1) of
                         Some error \<Rightarrow> (Inl error, w2)
                       | None \<Rightarrow>
                           (let w3 = w2\<lparr>db_messages := db_messages w2 @ [messageData]\<rparr>;
                                w4 = triggerWebhooks e r ''message.sent''
                                       (JObject [(''message'', messageData),
                                                 (''instance'', row_js (instanceData this)),
                                                 (''recipient'', JStr formattedNumber)]) w3
                            in (Inr messageId,
                                instanceLogService_create (row_id (instanceData this)) ''info''
                                  (''Message sent: '' @ messageText) w4)))))"

definition instance_sendMessage ::
  "env \<Rightarrow> nat \<Rightarrow> string \<Rightarrow> string \<Rightarrow> world \<Rightarrow> (string + string) \<times> world" where
  "instance_sendMessage e r phoneNumber messageText w =
     (case sendMessage_try e r phoneNumber messageText w of
        (Inr messageId, w1) \<Rightarrow> (Inr messageId, w1)
      | (Inl error, w1) \<Rightarrow>
          (Inl error,
           instanceLogService_create (row_id (instanceData (heap w1 r))) ''error''
             (''Error sending message: '' @ error)
             (log_line ''error''
                (''Error sending message from '' @ row_phone (instanceData (heap w1 r))) w1)))"

record media_data =
  media_type :: string
  media_url :: string
  media_caption :: "string option"
  media_filename :: "string option"

text \<open>The \<open>switch (type.toLowerCase())\<close>; \<open>None\<close> is the \<open>default\<close> branch, which throws.\<close>

definition media_content :: "env \<Rightarrow> media_data \<Rightarrow> jsval option" where
  "media_content e mediaData =
     (let url = JObject [(''url'', JStr (media_url mediaData))];
          caption = (case media_caption mediaData of
                       None \<Rightarrow> JUndefined
                     | Some c \<Rightarrow> if c = [] then JUndefined else JStr (c @ watermark e));
          t = toLowerCase (media_type mediaData)
      in if t = ''image'' then Some (JObject [(''image'', url), (''caption'', caption)])
         else if t = ''video'' then Some (JObject [(''video'', url), (''caption'', caption)])
         else if t = ''audio'' then Some (JObject [(''audio'', url), (''mimetype'', JStr ''audio/mp4'')])
         else if t = ''document'' then
           Some (JObject [(''document'', url),
                          (''fileName'', (case media_filename mediaData of
                                            None \<Rightarrow> JStr ''document''
                                          | Some f \<Rightarrow> if f = [] then JStr ''document'' else JStr f)),
                          (''caption'', caption)])
         else None)"

definition sendMediaMessage_try ::
  "env \<Rightarrow> nat \<Rightarrow> string \<Rightarrow> media_data \<Rightarrow> world \<Rightarrow> (string + string) \<times> world" where
  "sendMediaMessage_try e r phoneNumber mediaData w =
     (let this = heap w r
      in if \<not> isConnected this then
           (Inl (''WhatsApp instance '' @ row_phone (instanceData this) @ '' not connected''), w)
         else
           (let formattedNumber = formatNumber phoneNumber;
                jid = personal_jid formattedNumber
            in case media_content e mediaData of
                 None \<Rightarrow>
                   (Inl (''Unsupported media type: '' @ media_type mediaData
                         @ ''. Supported types: image, video, audio, document''), w)
               | Some messageContent \<Rightarrow>
                   (let w1 = w\<lparr>transport_calls :=
                                  transport_calls w @ [(jid, ''sendMessage'', messageContent)],
                                tick := Suc (tick w)\<rparr>
                    in case transport_reply e (tick w) of
                         Inl error \<Rightarrow> (Inl error, w1)
                       | Inr messageId \<Rightarrow>
                           (let t = toLowerCase (media_type mediaData);
                                messageData =
                                  JObject [(''instanceId'', JStr (row_id (instanceData this))),
                                           (''direction'', JStr ''outgoing''),
                                           (''from'', JStr (row_phone (instanceData this))),
                                           (''to'', JStr formattedNumber),
                                           (''type'', JStr t),
                                           (''message'',
                                              JObject [(''content'',
                                                          js_or (opt_str (media_caption mediaData))
                                                            (JStr (media_type mediaData @ '' media''))),
                                                       (''messageId'', JStr messageId),
                                                       (''mediaType'', JStr t),
                                                       (''mediaUrl'', JStr (media_url mediaData)),
                                                       (''filename'', opt_str (media_filename mediaData))]),
                                           (''status'', JStr ''sent''),
                                           (''sentAt'', JNum (int (clock w1)))];
                                w2 = w1\<lparr>tick := Suc (tick w1)\<rparr>
                            in case io_error e (tick w1) of
                                 Some error \<Rightarrow> (Inl error, w2)
                               | None \<Rightarrow>
                                   (let w3 = w2\<lparr>db_messages := db_messages w2 @ [messageData]\<rparr>;
                                        w4 = triggerWebhooks e r ''message.sent''
                                               (JObject [(''message'', messageData),
                                                         (''instance'', row_js (instanceData this)),
                                                         (''recipient'', JStr formattedNumber),
                                                         (''mediaType'', JStr t)]) w3
                                    in (Inr messageId,
                                        instanceLogService_create (row_id (instanceData this)) ''info''
                                          (media_type mediaData @ '' media sent'') w4))))))"

definition instance_sendMediaMessage ::
  "env \<Rightarrow> nat \<Rightarrow> string \<Rightarrow> media_data \<Rightarrow> world \<Rightarrow> (string + string) \<times> world" where
  "instance_sendMediaMessage e r phoneNumber mediaData w =
     (case sendMediaMessage_try e r phoneNumber mediaData w of
        (Inr messageId, w1) \<Rightarrow> (Inr messageId, w1)
      | (Inl error, w1) \<Rightarrow>
          (Inl error,
           instanceLogService_create (row_id (instanceData (heap w1 r))) ''error''
             (''Error sending media message: '' @ error)
             (log_line ''error''
                (''Error sending media message from '' @ row_phone (instanceData (heap w1 r))) w1)))"

text \<open>The transport calls that a step added, as (JID, operation, content).\<close>

definition new_transport_calls :: "world \<Rightarrow> world \<Rightarrow> (string \<times> string \<times> jsval) list" where
  "new_transport_calls w w' = drop (length (transport_calls w)) (transport_calls w')"

section \<open>Concrete worlds\<close>

text \<open>
  One instance, connected, registered under its phone, with its row in the store and one
  enabled subscription; an environment in which every POST is answered with 200 after
  40 ms and no guarded call fails.
\<close>

definition example_row :: instance_row where
  "example_row =
     \<lparr>row_id = ''1'', row_phone = ''628123456789'', row_name = ''I1'', row_alias = None,
      row_status = ''active'', row_pluginConfig = JObject []\<rparr>"

definition example_instance :: whatsapp_instance where
  "example_instance =
     (new_WhatsAppInstance example_row)
       \<lparr>sock := Some \<lparr>user_id = None\<rparr>, isConnected := True, connectionStatus := ''connected''\<rparr>"

definition example_hook :: webhook where
  "example_hook =
     \<lparr>wh_id = ''A'', wh_instanceId = ''1'', wh_event = ''message.received'',
      wh_url = ''http://a.example/hook'', wh_isEnabled = True\<rparr>"

definition example_world :: world where
  "example_world =
     \<lparr>heap = (\<lambda>r. example_instance), next_ref = 1,
      instances = [''628123456789'' \<mapsto> 0], timers = [],
      db_instances = [example_row], db_webhooks = [example_hook], db_messages = [],
      db_history = [], db_instance_logs = [], next_id = 2,
      auth_dirs = {''628123456789''}, plugin_modules = [],
      logger = [], posts = [], plugin_calls = [], transport_calls = [],
      clock = 1000, tick = 0\<rparr>"

definition ok_response :: http_response where
  "ok_response = \<lparr>resp_status = 200, resp_statusText = ''OK'', resp_headers = [], resp_data = JNull\<rparr>"

definition example_env :: env where
  "example_env =
     \<lparr>http = (\<lambda>n url. \<lparr>outcome = Resolved ok_response, elapsed = 40\<rparr>),
      io_error = (\<lambda>n. None),
      transport_reply = (\<lambda>n. Inr ''3EB0'' ),
      loggedOut = 401,
      watermark = '' > Sent via Whisper''\<rparr>"

text \<open>The fields of the world that a webhook dispatch leaves as they are.\<close>

definition dispatch_frame :: "world \<Rightarrow> world \<Rightarrow> bool" where
  "dispatch_frame w w' =
     (heap w' = heap w \<and> next_ref w' = next_ref w \<and> instances w' = instances w
      \<and> timers w' = timers w \<and> db_instances w' = db_instances w
      \<and> db_webhooks w' = db_webhooks w \<and> db_messages w' = db_messages w
      \<and> db_instance_logs w' = db_instance_logs w \<and> next_id w' = next_id w
      \<and> auth_dirs w' = auth_dirs w \<and> plugin_modules w' = plugin_modules w
      \<and> plugin_calls w' = plugin_calls w \<and> transport_calls w' = transport_calls w)"


section \<open>The sanitised form of a value\<close>



section \<open>Delivery outcomes\<close>

text \<open>
  The contract of \<open>axios\<close> with its default \<open>validateStatus\<close>: the promise resolves
  exactly for a response with a 2xx status; it rejects with \<open>error.response\<close> set for any
  other response, and without a response for a timeout (\<open>error.code\<close> is
  \<open>ECONNABORTED\<close>) or another transport error.
\<close>

definition is_2xx :: "int \<Rightarrow> bool" where
  "is_2xx status = (200 \<le> status \<and> status < 300)"

fun axios_default :: "axios_outcome \<Rightarrow> bool" where
  "axios_default (Resolved response) = is_2xx (resp_status response)"
| "axios_default (Rejected error) =
     (case err_response error of
        None \<Rightarrow> True
      | Some response \<Rightarrow> \<not> is_2xx (resp_status response) \<and> err_code error \<noteq> Some ''ECONNABORTED'')"

fun response_of :: "axios_outcome \<Rightarrow> http_response option" where
  "response_of (Resolved response) = Some response"
| "response_of (Rejected error) = err_response error"

fun timed_out :: "axios_outcome \<Rightarrow> bool" where
  "timed_out (Resolved response) = False"
| "timed_out (Rejected error) = (err_code error = Some ''ECONNABORTED'')"

fun message_of :: "axios_outcome \<Rightarrow> string option" where
  "message_of (Resolved response) = None"
| "message_of (Rejected error) = Some (err_message error)"



text \<open>Two more environments: every POST times out; the third interaction, a write, fails.\<close>

definition timeout_env :: env where
  "timeout_env =
     example_env\<lparr>http := (\<lambda>n url. \<lparr>outcome = Rejected \<lparr>err_code = Some ''ECONNABORTED'',
                                       err_response = None,
                                       err_message = ''timeout of 5000ms exceeded''\<rparr>,
                                   elapsed = 5000\<rparr>)\<rparr>"


section \<open>Plugin overrides\<close>








section \<open>Supervision of a session\<close>

text \<open>
  What the operations on an instance other than the reconnect branch of the close handler
  leave as it is: the pending timers and, for every instance object, its reconnect counter,
  its maximum, its manual-restart flag and its row data (\<open>session_frame\<close>); the manager's
  map, the ids and phones of the persisted rows and the credential directories there are
  (\<open>registry_frame\<close>).
\<close>

definition session_frame :: "world \<Rightarrow> world \<Rightarrow> bool" where
  "session_frame w w' =
     (timers w' = timers w
      \<and> (\<forall>x. reconnectAttempts (heap w' x) = reconnectAttempts (heap w x)
             \<and> maxReconnectAttempts (heap w' x) = maxReconnectAttempts (heap w x)
             \<and> isManualRestart (heap w' x) = isManualRestart (heap w x)
             \<and> instanceData (heap w' x) = instanceData (heap w x)
             \<and> authDir (heap w' x) = authDir (heap w x)))"

definition registry_frame :: "world \<Rightarrow> world \<Rightarrow> bool" where
  "registry_frame w w' =
     (instances w' = instances w
      \<and> map row_id (db_instances w') = map row_id (db_instances w)
      \<and> map row_phone (db_instances w') = map row_phone (db_instances w)
      \<and> auth_dirs w \<subseteq> auth_dirs w')"




text \<open>
  The example world after its row was deleted from the store by another process (the
  retention script runs as one): the instance is still in the manager's map.
\<close>

definition unpersisted_world :: world where
  "unpersisted_world = example_world\<lparr>db_instances := []\<rparr>"

section \<open>Properties\<close>

subsection \<open>What a webhook dispatch leaves alone\<close>

lemma dispatch_frame_deliver: "dispatch_frame w (deliver e i ev d wh w)"
  by (simp add: dispatch_frame_def deliver_def Let_def log_line_def split: axios_outcome.split option.split)

lemma dispatch_frame_trans: "dispatch_frame a b \<Longrightarrow> dispatch_frame b c \<Longrightarrow> dispatch_frame a c"
  by (simp add: dispatch_frame_def)

lemma dispatch_frame_deliver_all: "dispatch_frame w (deliver_all e i ev d whs w)"
proof (induction whs arbitrary: w)
  case Nil
  show ?case by (simp add: dispatch_frame_def)
next
  case (Cons wh whs)
  show ?case
    using dispatch_frame_trans [OF dispatch_frame_deliver Cons.IH] by simp
qed

lemma dispatch_frame_triggerWebhooks: "dispatch_frame w (triggerWebhooks e r ev d w)"
proof (cases "io_error e (tick w)")
  case None
  have "dispatch_frame w (w\<lparr>tick := Suc (tick w)\<rparr>)" by (simp add: dispatch_frame_def)
  then show ?thesis
    using None dispatch_frame_trans [OF _ dispatch_frame_deliver_all]
    by (simp add: triggerWebhooks_def Let_def)
next
  case (Some a)
  then show ?thesis by (simp add: triggerWebhooks_def Let_def dispatch_frame_def log_line_def)
qed

lemma stripNonDigits_digits: "list_all isDigit (stripNonDigits p)"
  by (simp add: stripNonDigits_def list_all_iff)

lemma formatNumber_62: "startsWith (formatNumber p) ''62'' \<and> list_all isDigit (formatNumber p)"
proof -
  have d: "list_all isDigit (stripNonDigits p)" by (rule stripNonDigits_digits)
  have d1: "list_all isDigit (drop 1 (stripNonDigits p))"
    using d by (metis append_take_drop_id list_all_append)
  have two: "isDigit CHR ''6'' \<and> isDigit CHR ''2''" by (simp add: isDigit_def)
  show ?thesis
    using d d1 two
    by (auto simp: formatNumber_def Let_def substring_from_def startsWith_def)
qed

lemma formatNumber_by_case:
  "formatNumber p =
     (if startsWith (stripNonDigits p) ''62'' then stripNonDigits p
      else if startsWith (stripNonDigits p) ''0'' then ''62'' @ drop 1 (stripNonDigits p)
      else ''62'' @ stripNonDigits p)"
  by (simp add: formatNumber_def Let_def substring_from_def)

lemma sendMessage_calls:
  "new_transport_calls w (snd (instance_sendMessage e r p t w)) =
     (if isConnected (heap w r)
      then [(formatNumber p @ ''@s.whatsapp.net'', ''sendMessage'', JObject [(''text'', JStr (t @ watermark e))])]
      else [])"
  using dispatch_frame_triggerWebhooks
  by (auto simp: instance_sendMessage_def sendMessage_try_def Let_def new_transport_calls_def
      instanceLogService_create_def log_line_def personal_jid_def dispatch_frame_def
      split: sum.split option.split prod.split)

lemma sendMediaMessage_calls:
  "new_transport_calls w (snd (instance_sendMediaMessage e r p m w)) =
     (if isConnected (heap w r)
      then (case media_content e m of None \<Rightarrow> []
            | Some c \<Rightarrow> [(formatNumber p @ ''@s.whatsapp.net'', ''sendMessage'', c)])
      else [])"
  using dispatch_frame_triggerWebhooks
  by (auto simp: instance_sendMediaMessage_def sendMediaMessage_try_def Let_def new_transport_calls_def
      instanceLogService_create_def log_line_def personal_jid_def dispatch_frame_def
      split: sum.split option.split prod.split)

subsection \<open>C10: the JID of a personal send\<close>

text \<open>
  C10. Every personal text or media send reduces the recipient to its digits and coerces
  them to a number that starts with 62 (a leading 0 is replaced by 62; digits that start
  neither with 62 nor with 0 get 62 in front, whatever country code they carry); the one
  transport call of the send receives that number followed by \<open>@s.whatsapp.net\<close>. A send
  on an instance that is not connected, or with an unsupported media type, makes no
  transport call.
\<close>

theorem outbound_jid_62_prefixed:
  "\<exists>n. startsWith n ''62'' \<and> list_all isDigit n
       \<and> n = (if startsWith (stripNonDigits phoneNumber) ''62'' then stripNonDigits phoneNumber
              else if startsWith (stripNonDigits phoneNumber) ''0''
                then ''62'' @ drop 1 (stripNonDigits phoneNumber)
              else ''62'' @ stripNonDigits phoneNumber)
       \<and> map fst (new_transport_calls w (snd (instance_sendMessage e r phoneNumber messageText w)))
           = (if isConnected (heap w r) then [n @ ''@s.whatsapp.net''] else [])
       \<and> map fst (new_transport_calls w (snd (instance_sendMediaMessage e r phoneNumber mediaData w)))
           = (if isConnected (heap w r) \<and> media_content e mediaData \<noteq> None
              then [n @ ''@s.whatsapp.net''] else [])"
proof -
  have "map fst (new_transport_calls w (snd (instance_sendMediaMessage e r phoneNumber mediaData w)))
           = (if isConnected (heap w r) \<and> media_content e mediaData \<noteq> None
              then [formatNumber phoneNumber @ ''@s.whatsapp.net''] else [])"
    by (simp add: sendMediaMessage_calls split: option.split)
  then show ?thesis
    using formatNumber_62 [of phoneNumber] formatNumber_by_case [of phoneNumber]
    by (intro exI [of _ "formatNumber phoneNumber"]) (simp add: sendMessage_calls)
qed

theorem outbound_jid_62_prefixed_witness:
  "map fst (new_transport_calls example_world
       (snd (instance_sendMessage example_env 0 ''+1 (555) 010-9999'' ''hi'' example_world)))
     = [''6215550109999@s.whatsapp.net'']
   \<and> map fst (new_transport_calls example_world
       (snd (instance_sendMediaMessage example_env 0 ''0812-3456''
          \<lparr>media_type = ''Image'', media_url = ''http://a.example/p.png'', media_caption = None,
           media_filename = None\<rparr> example_world)))
     = [''628123456@s.whatsapp.net'']"
proof -
  have c: "isConnected (heap example_world 0)"
    by (simp add: example_world_def example_instance_def)
  have m: "media_content example_env
          \<lparr>media_type = ''Image'', media_url = ''http://a.example/p.png'', media_caption = None,
           media_filename = None\<rparr> \<noteq> None"
    by (simp add: media_content_def toLowerCase_def lower_char_def Let_def)
  have d1: "stripNonDigits ''+1 (555) 010-9999'' = ''15550109999''"
    by (simp add: stripNonDigits_def isDigit_def)
  have d2: "stripNonDigits ''0812-3456'' = ''08123456''"
    by (simp add: stripNonDigits_def isDigit_def)
  show ?thesis
    using outbound_jid_62_prefixed [of "''+1 (555) 010-9999''" example_world example_env 0 "''hi''" mediaData]
      outbound_jid_62_prefixed [of "''0812-3456''" example_world example_env 0 messageText
        "\<lparr>media_type = ''Image'', media_url = ''http://a.example/p.png'', media_caption = None,
           media_filename = None\<rparr>"]
      c m
    by (simp add: d1 d2 startsWith_def)
qed

subsection \<open>C9: safe serialisation\<close>

lemma replacer_returns_plain:
  "typeof (replacer v) \<noteq> ''function'' \<and> \<not> instanceof_Uint8Array (replacer v)
   \<and> (\<forall>s. replacer v \<noteq> JExotic s)"
  by (cases v) (simp_all add: replacer_def)

lemma ser_elems_nums: "ser_elems (map (\<lambda>b. JNum (int b)) bs) = Inr (map (\<lambda>b. JNum (int b)) bs)"
  by (induction bs) (simp_all add: ser.simps(1) replacer_def)

lemma ser_str: "ser (JStr s) = Inr (Some (JStr s))"
  by (simp add: ser.simps(1) replacer_def)






text \<open>
  A \<open>Buffer\<close> never reaches the replacer: its \<open>toJSON\<close> has already turned it into a
  plain object.
\<close>

lemma ser_Buffer:
  "ser (JBuffer bs) =
     Inr (Some (JObject [(''type'', JStr ''Buffer''), (''data'', JArray (map (\<lambda>b. JNum (int b)) bs))]))"
  by (simp add: ser.simps(1) [of "JBuffer bs"] ser.simps(1) [of "JArray _"] replacer_def ser_str ser_elems_nums)





subsection \<open>C4 and C5: webhook history\<close>

lemma deliver_tick: "tick (deliver e i ev d wh w) = Suc (Suc (tick w))"
  by (simp add: deliver_def Let_def log_line_def split: axios_outcome.split option.split)





lemma deliver_all_tick: "tick (deliver_all e i ev d whs w) = tick w + 2 * length whs"
  by (induction whs arbitrary: w) (simp_all add: deliver_tick)





text \<open>
  C5. The row recorded for a delivery attempt is classified by the outcome of the POST: a
  response with a 2xx status gives \<open>success\<close> with that status; a response with another
  status gives \<open>failed\<close> with that status; no response gives a null status and the
  message of the error, with \<open>timeout\<close> for a timeout and \<open>failed\<close> for any other
  transport error.
\<close>

theorem delivery_classified:
  assumes "axios_default (outcome (http e (tick w) (wh_url wh)))"
      and "io_error e (Suc (tick w)) = None"
  shows "\<exists>row. db_history (deliver e instanceId event data wh w) = db_history w @ [row]
        \<and> h_webhookId row = wh_id wh
        \<and> h_errorMessage row = message_of (outcome (http e (tick w) (wh_url wh)))
        \<and> (case response_of (outcome (http e (tick w) (wh_url wh))) of
             Some response \<Rightarrow>
               h_httpStatusCode row = Some (resp_status response)
               \<and> h_status row = (if is_2xx (resp_status response) then ''success'' else ''failed'')
           | None \<Rightarrow>
               h_httpStatusCode row = None
               \<and> h_status row = (if timed_out (outcome (http e (tick w) (wh_url wh)))
                                  then ''timeout'' else ''failed''))"
proof -
  let ?out = "outcome (http e (tick w) (wh_url wh))"
  show ?thesis
  proof (cases ?out)
    case (Resolved response)
    then show ?thesis
      using assms
      by (simp add: deliver_def Let_def attempt_row_def)
  next
    case (Rejected error)
    then show ?thesis
      using assms
      by (cases "err_response error")
         (auto simp: deliver_def Let_def attempt_row_def log_line_def)
  qed
qed

theorem delivery_classified_witness:
  "map (\<lambda>row. (h_status row, h_httpStatusCode row, h_errorMessage row))
     (db_history (deliver timeout_env ''1'' ''message.received'' JNull example_hook example_world))
   = [(''timeout'', None, Some ''timeout of 5000ms exceeded'')]
   \<and> map (\<lambda>row. (h_status row, h_httpStatusCode row, h_errorMessage row))
     (db_history (deliver example_env ''1'' ''message.received'' JNull example_hook example_world))
   = [(''success'', Some 200, None)]"
proof -
  have a: "axios_default (outcome (http timeout_env (tick example_world) (wh_url example_hook)))"
    by (simp add: timeout_env_def example_env_def)
  have b: "io_error timeout_env (Suc (tick example_world)) = None"
    by (simp add: timeout_env_def example_env_def)
  have c: "axios_default (outcome (http example_env (tick example_world) (wh_url example_hook)))"
    by (simp add: example_env_def ok_response_def is_2xx_def)
  have d: "io_error example_env (Suc (tick example_world)) = None"
    by (simp add: example_env_def)
  show ?thesis
    using delivery_classified [OF a b, of "''1''" "''message.received''" JNull]
      delivery_classified [OF c d, of "''1''" "''message.received''" JNull]
    by (auto simp: timeout_env_def example_env_def example_world_def ok_response_def is_2xx_def)
qed



subsection \<open>C7 and C8: plugin chain and inbound pipeline\<close>
























subsection \<open>C1, C2, C3: the close handler\<close>

lemma session_frame_refl: "session_frame w w"
  by (simp add: session_frame_def)

lemma session_frame_trans: "session_frame a b \<Longrightarrow> session_frame b c \<Longrightarrow> session_frame a c"
  by (simp add: session_frame_def)

lemma registry_frame_refl: "registry_frame w w"
  by (simp add: registry_frame_def)

lemma registry_frame_trans: "registry_frame a b \<Longrightarrow> registry_frame b c \<Longrightarrow> registry_frame a c"
  by (auto simp: registry_frame_def)

lemma triggerWebhooks_fields:
  "heap (triggerWebhooks e r ev d w) = heap w"
  "instances (triggerWebhooks e r ev d w) = instances w"
  "timers (triggerWebhooks e r ev d w) = timers w"
  "db_instances (triggerWebhooks e r ev d w) = db_instances w"
  "auth_dirs (triggerWebhooks e r ev d w) = auth_dirs w"
  "next_ref (triggerWebhooks e r ev d w) = next_ref w"
  "db_instance_logs (triggerWebhooks e r ev d w) = db_instance_logs w"
  using dispatch_frame_triggerWebhooks [of w e r ev d] by (simp_all add: dispatch_frame_def)

lemma updateStatus_frames:
  "session_frame w (snd (instanceService_updateStatus i st w))
   \<and> registry_frame w (snd (instanceService_updateStatus i st w))"
  by (simp add: instanceService_updateStatus_def session_frame_def registry_frame_def comp_def)

lemma updateStatus_ok:
  "i \<in> set (map row_id (db_instances w)) \<Longrightarrow>
     fst (instanceService_updateStatus i st w) = None
     \<and> (\<forall>row \<in> set (db_instances (snd (instanceService_updateStatus i st w))).
           row_id row = i \<longrightarrow> row_status row = st)"
  by (auto simp: instanceService_updateStatus_def)

lemma initialize_try_frames:
  "session_frame w (snd (initialize_try e r w)) \<and> registry_frame w (snd (initialize_try e r w))"
  by (auto simp: initialize_try_def then_do_def instanceService_updateStatus_def Let_def
        loadPlugins_def upd_obj_def instanceLogService_create_def session_frame_def registry_frame_def
        comp_def split: option.split)

lemma initialize_frames:
  "session_frame w (snd (initialize e r w)) \<and> registry_frame w (snd (initialize e r w))"
proof -
  obtain x w1 where t: "initialize_try e r w = (x, w1)" by (cases "initialize_try e r w")
  have f1: "session_frame w w1" "registry_frame w w1"
    using initialize_try_frames [of w e r] t by simp_all
  show ?thesis
  proof (cases x)
    case None
    then show ?thesis using t f1 by (simp add: initialize_def)
  next
    case (Some error)
    let ?w4 = "upd_obj r (\<lambda>this. this\<lparr>connectionStatus := ''error''\<rparr>)
                 (instanceLogService_create (row_id (instanceData (heap w1 r))) ''error''
                      (''Error initializing WhatsApp instance: '' @ error)
                    (log_line ''error''
                      (''Error initializing WhatsApp instance '' @ row_phone (instanceData (heap w1 r))) w1))"
    have f2: "session_frame w1 ?w4" "registry_frame w1 ?w4"
      by (simp_all add: session_frame_def registry_frame_def upd_obj_def instanceLogService_create_def log_line_def)
    have f3: "session_frame ?w4 (snd (instanceService_updateStatus (row_id (instanceData (heap w1 r))) ''error'' ?w4))"
         "registry_frame ?w4 (snd (instanceService_updateStatus (row_id (instanceData (heap w1 r))) ''error'' ?w4))"
      using updateStatus_frames by simp_all
    have eq: "snd (initialize e r w) = snd (instanceService_updateStatus (row_id (instanceData (heap w1 r))) ''error'' ?w4)"
      using t Some by (simp add: initialize_def Let_def)
    show ?thesis
      unfolding eq
      using session_frame_trans [OF f1(1) session_frame_trans [OF f2(1) f3(1)]]
        registry_frame_trans [OF f1(2) registry_frame_trans [OF f2(2) f3(2)]] by simp
  qed
qed

lemma disconnect_effect:
  "\<exists>w1. snd (disconnect e x w)
         = snd (instanceService_updateStatus (row_id (instanceData (heap w x))) ''inactive''
                  (upd_obj x (\<lambda>this. this\<lparr>isConnected := False, connectionStatus := ''disconnected''\<rparr>) w1))
       \<and> fst (disconnect e x w)
         = fst (instanceService_updateStatus (row_id (instanceData (heap w x))) ''inactive''
                  (upd_obj x (\<lambda>this. this\<lparr>isConnected := False, connectionStatus := ''disconnected''\<rparr>) w1))
       \<and> heap w1 = heap w \<and> instances w1 = instances w \<and> timers w1 = timers w
       \<and> db_instances w1 = db_instances w \<and> auth_dirs w1 = auth_dirs w"
  by (cases "sock (heap w x)"; cases "io_error e (tick w)")
     (auto simp: disconnect_def Let_def log_line_def intro!: exI)


lemma disconnect_frames: "session_frame w (snd (disconnect e x w))"
proof -
  obtain w1 where w1: "snd (disconnect e x w)
         = snd (instanceService_updateStatus (row_id (instanceData (heap w x))) ''inactive''
                  (upd_obj x (\<lambda>this. this\<lparr>isConnected := False, connectionStatus := ''disconnected''\<rparr>) w1))"
      "heap w1 = heap w" "timers w1 = timers w"
    using disconnect_effect [of e x w] by blast
  let ?w2 = "upd_obj x (\<lambda>this. this\<lparr>isConnected := False, connectionStatus := ''disconnected''\<rparr>) w1"
  have "session_frame w ?w2" using w1(2,3) by (simp add: session_frame_def upd_obj_def)
  then show ?thesis
    unfolding w1(1) using updateStatus_frames session_frame_trans by blast
qed

lemma instanceService_delete_frames: "session_frame w (snd (instanceService_delete i w))"
  by (simp add: instanceService_delete_def session_frame_def)

lemma deleteInstance_try_frames: "session_frame w (snd (deleteInstance_try e phone keep w))"
proof -
  let ?a = "(case instances w phone of
          Some instance \<Rightarrow>
            then_do (disconnect e instance w)
              (\<lambda>w1. (None, w1\<lparr>instances := (instances w1)(phone := None)\<rparr>))
        | None \<Rightarrow> (None, w))"
  have a: "session_frame w (snd ?a)"
  proof (cases "instances w phone")
    case None
    then show ?thesis by (simp add: session_frame_refl)
  next
    case (Some x)
    then show ?thesis
      using disconnect_frames [of w e x]
      by (cases "disconnect e x w") (auto simp: then_do_def session_frame_def split: option.split)
  qed
  obtain er wa where wa: "?a = (er, wa)" by (cases ?a)
  have b: "session_frame wa (snd ((\<lambda>w1.
          then_do
            (if \<not> keep then
               (case findByPhone phone w1 of
                  Some dbInstance \<Rightarrow> instanceService_delete (row_id dbInstance) w1
                | None \<Rightarrow> (None, w1))
             else (None, w1))
            (\<lambda>w2. (None, w2\<lparr>auth_dirs := auth_dirs w2 - {phone}\<rparr>))) wa))"
    by (auto simp: then_do_def session_frame_def instanceService_delete_def split: option.split)
  show ?thesis
    using a b wa
    unfolding deleteInstance_try_def
    by (cases er) (auto simp: then_do_def intro: session_frame_trans)
qed

lemma deleteInstance_frames: "session_frame w (snd (deleteInstance e phone keep w))"
  using deleteInstance_try_frames [of w e phone keep]
  by (cases "deleteInstance_try e phone keep w")
     (auto simp: deleteInstance_def log_line_def session_frame_def split: option.split)



lemma step_close:
  "step e (ConnectionUpdate r (close_update code msg)) w
     = (case on_close e r code msg w of
          (None, w2) \<Rightarrow>
            instanceLogService_create (row_id (instanceData (heap w2 r))) ''info''
              ''Connection status changed: close'' w2
        | (Some error, w2) \<Rightarrow> w2)"
  by (simp add: step_def connection_update_handler_def close_update_def then_do_def
        split: prod.split option.split)

lemma on_close_reconnect:
  assumes "code \<noteq> Some (loggedOut e)"
      and "reconnectAttempts (heap w r) < maxReconnectAttempts (heap w r)"
      and "isManualRestart (heap w r) \<longrightarrow> code = Some 515"
      and "row_id (instanceData (heap w r)) \<in> set (map row_id (db_instances w))"
  shows "fst (on_close e r code msg w) = None
       \<and> heap (snd (on_close e r code msg w))
           = (heap w)(r := (heap w r)\<lparr>isManualRestart := False,
                                        reconnectAttempts := Suc (reconnectAttempts (heap w r)),
                                        connectionStatus := ''reconnecting'',
                                        isConnected := False\<rparr>)
       \<and> timers (snd (on_close e r code msg w)) = timers w @ [r]
       \<and> instances (snd (on_close e r code msg w)) = instances w
       \<and> auth_dirs (snd (on_close e r code msg w)) = auth_dirs w
       \<and> db_instances (snd (on_close e r code msg w))
           = map (\<lambda>row. if row_id row = row_id (instanceData (heap w r))
                         then row\<lparr>row_status := ''reconnecting''\<rparr> else row) (db_instances w)"
  using assms
  by (auto simp: on_close_def Let_def then_do_def upd_obj_def instanceService_updateStatus_def
        triggerWebhooks_fields)

lemma on_close_stop:
  assumes "\<not> (code \<noteq> Some (loggedOut e)
             \<and> reconnectAttempts (heap w r) < maxReconnectAttempts (heap w r)
             \<and> \<not> (isManualRestart (heap w r) \<and> code \<noteq> Some 515))"
  shows "session_frame (upd_obj r (\<lambda>this. this\<lparr>isManualRestart := False\<rparr>) w)
           (snd (on_close e r code msg w))"
proof -
  let ?w0 = "upd_obj r (\<lambda>this. this\<lparr>isManualRestart := False\<rparr>) w"
  let ?phone = "row_phone (instanceData (heap w r))"
  show ?thesis
  proof (cases "isManualRestart (heap w r) \<and> code \<noteq> Some 515")
    case True
    then show ?thesis
      by (auto simp: on_close_def Let_def then_do_def upd_obj_def instanceService_updateStatus_def
            triggerWebhooks_fields session_frame_def)
  next
    case False
    obtain er w1 where d: "deleteInstance e ?phone True ?w0 = (er, w1)"
      by (cases "deleteInstance e ?phone True ?w0")
    have f: "session_frame ?w0 w1" using deleteInstance_frames [of ?w0 e ?phone True] d by simp
    show ?thesis
      using assms False d f
      by (cases er)
         (auto simp: on_close_def Let_def then_do_def upd_obj_def instanceService_updateStatus_def
            triggerWebhooks_fields session_frame_def log_line_def)
  qed
qed




lemma on_close_flag: "\<not> isManualRestart (heap (snd (on_close e r code msg w)) r)"
proof (cases "code \<noteq> Some (loggedOut e)
             \<and> reconnectAttempts (heap w r) < maxReconnectAttempts (heap w r)
             \<and> \<not> (isManualRestart (heap w r) \<and> code \<noteq> Some 515)")
  case True
  then show ?thesis
    by (auto simp: on_close_def Let_def then_do_def upd_obj_def instanceService_updateStatus_def
          triggerWebhooks_fields)
next
  case False
  from on_close_stop [OF False, of msg]
  show ?thesis by (simp add: session_frame_def upd_obj_def)
qed

lemma step_close_fields:
  "heap (step e (ConnectionUpdate r (close_update code msg)) w) = heap (snd (on_close e r code msg w))"
  "timers (step e (ConnectionUpdate r (close_update code msg)) w) = timers (snd (on_close e r code msg w))"
  "instances (step e (ConnectionUpdate r (close_update code msg)) w) = instances (snd (on_close e r code msg w))"
  "auth_dirs (step e (ConnectionUpdate r (close_update code msg)) w) = auth_dirs (snd (on_close e r code msg w))"
  "db_instances (step e (ConnectionUpdate r (close_update code msg)) w) = db_instances (snd (on_close e r code msg w))"
  by (simp_all add: step_close instanceLogService_create_def split: prod.split option.split)

lemma on_close_as_if_unset:
  "on_close e r (Some 515) msg (upd_obj r (\<lambda>this. this\<lparr>isManualRestart := False\<rparr>) w)
     = on_close e r (Some 515) msg w"
  by (simp add: on_close_def Let_def upd_obj_def cong: option.case_cong prod.case_cong)

text \<open>
  C3. A close with code 515 is handled as if the manual-restart flag were not set: the
  handler leaves the same world whether the flag was set or not, and with fewer than 5
  attempts behind it (515 not being the logged-out code, and the row being in the store)
  the instance becomes \<open>reconnecting\<close>, counts one more attempt and schedules a
  reconnect. A restart request sets the flag of the phone's instance, and every close
  handler, whatever the code, leaves it cleared.
\<close>

theorem stream_reset_ignores_manual_restart:
  "step e (ConnectionUpdate r (close_update (Some 515) msg)) w
     = step e (ConnectionUpdate r (close_update (Some 515) msg))
         (upd_obj r (\<lambda>this. this\<lparr>isManualRestart := False\<rparr>) w)
   \<and> (loggedOut e \<noteq> 515 \<and> maxReconnectAttempts (heap w r) = 5 \<and> reconnectAttempts (heap w r) < 5
        \<and> row_id (instanceData (heap w r)) \<in> set (map row_id (db_instances w)) \<longrightarrow>
        connectionStatus (heap (step e (ConnectionUpdate r (close_update (Some 515) msg)) w) r)
          = ''reconnecting''
        \<and> reconnectAttempts (heap (step e (ConnectionUpdate r (close_update (Some 515) msg)) w) r)
          = Suc (reconnectAttempts (heap w r))
        \<and> timers (step e (ConnectionUpdate r (close_update (Some 515) msg)) w) = timers w @ [r])
   \<and> (instances w phone = Some r \<longrightarrow>
        isManualRestart (heap (step e (RestartRequested phone) w) r))
   \<and> \<not> isManualRestart (heap (step e (ConnectionUpdate r (close_update code msg)) w) r)"
proof -
  have a: "step e (ConnectionUpdate r (close_update (Some 515) msg)) w
     = step e (ConnectionUpdate r (close_update (Some 515) msg))
         (upd_obj r (\<lambda>this. this\<lparr>isManualRestart := False\<rparr>) w)"
    by (simp add: step_close on_close_as_if_unset)
  have b: "connectionStatus (heap (step e (ConnectionUpdate r (close_update (Some 515) msg)) w) r)
          = ''reconnecting''
        \<and> reconnectAttempts (heap (step e (ConnectionUpdate r (close_update (Some 515) msg)) w) r)
          = Suc (reconnectAttempts (heap w r))
        \<and> timers (step e (ConnectionUpdate r (close_update (Some 515) msg)) w) = timers w @ [r]"
    if "loggedOut e \<noteq> 515" and "maxReconnectAttempts (heap w r) = 5"
      and "reconnectAttempts (heap w r) < 5"
      and "row_id (instanceData (heap w r)) \<in> set (map row_id (db_instances w))"
    using on_close_reconnect [of "Some 515" e w r msg] that
    by (simp add: step_close_fields)
  have c: "isManualRestart (heap (step e (RestartRequested phone) w) r)"
    if "instances w phone = Some r"
    using that
    by (simp add: step_def restartInstance_begin_def close_instance_def upd_obj_def Let_def
          log_line_def split: option.split)
  have d: "\<not> isManualRestart (heap (step e (ConnectionUpdate r (close_update code msg)) w) r)"
    by (simp add: step_close_fields on_close_flag)
  show ?thesis using a b c d by blast
qed

















lemma restart_requested:
  assumes "instances w phone = Some r"
  shows "heap (step e (RestartRequested phone) w)
           = (heap w)(r := (heap w r)\<lparr>isManualRestart := True, isConnected := False,
                                        connectionStatus := ''disconnected''\<rparr>)
       \<and> timers (step e (RestartRequested phone) w) = timers w
       \<and> instances (step e (RestartRequested phone) w) = instances w
       \<and> auth_dirs (step e (RestartRequested phone) w) = auth_dirs w
       \<and> db_instances (step e (RestartRequested phone) w) = db_instances w"
  using assms
  by (auto simp: step_def restartInstance_begin_def close_instance_def upd_obj_def Let_def
        log_line_def split: option.split)








theorem stream_reset_ignores_manual_restart_witness:
  "isManualRestart (heap (step example_env (RestartRequested ''628123456789'') example_world) 0)
   \<and> connectionStatus
       (heap (step example_env (ConnectionUpdate 0 (close_update (Some 515) None))
                (step example_env (RestartRequested ''628123456789'') example_world)) 0)
       = ''reconnecting''
   \<and> timers (step example_env (ConnectionUpdate 0 (close_update (Some 515) None))
                (step example_env (RestartRequested ''628123456789'') example_world)) = [0]
   \<and> \<not> isManualRestart
       (heap (step example_env (ConnectionUpdate 0 (close_update (Some 515) None))
                (step example_env (RestartRequested ''628123456789'') example_world)) 0)"
proof -
  let ?w1 = "step example_env (RestartRequested ''628123456789'') example_world"
  have reg: "instances example_world ''628123456789'' = Some 0"
    by (simp add: example_world_def)
  from restart_requested [OF reg, of example_env]
  have s1: "heap ?w1 = (heap example_world)(0 := (heap example_world 0)\<lparr>isManualRestart := True,
                 isConnected := False, connectionStatus := ''disconnected''\<rparr>)"
      "timers ?w1 = timers example_world" "db_instances ?w1 = db_instances example_world"
    by simp_all
  have h0: "loggedOut example_env \<noteq> 515" by (simp add: example_env_def)
  have h1: "maxReconnectAttempts (heap ?w1 0) = 5 \<and> reconnectAttempts (heap ?w1 0) < 5
        \<and> row_id (instanceData (heap ?w1 0)) \<in> set (map row_id (db_instances ?w1))"
    unfolding s1
    by (simp add: example_world_def example_instance_def new_WhatsAppInstance_def example_row_def)
  have h: "loggedOut example_env \<noteq> 515 \<and> maxReconnectAttempts (heap ?w1 0) = 5
        \<and> reconnectAttempts (heap ?w1 0) < 5
        \<and> row_id (instanceData (heap ?w1 0)) \<in> set (map row_id (db_instances ?w1))"
    using h0 h1 by simp
  have t: "timers example_world = []" by (simp add: example_world_def)
  let ?w2 = "step example_env (ConnectionUpdate 0 (close_update (Some 515) None)) ?w1"
  note t1 = stream_reset_ignores_manual_restart [of example_env 0 None ?w1 "''628123456789''" "Some 515"]
  note t2 = stream_reset_ignores_manual_restart [of example_env 0 None example_world "''628123456789''" "Some 515"]
  have A: "connectionStatus (heap ?w2 0) = ''reconnecting''
        \<and> reconnectAttempts (heap ?w2 0) = Suc (reconnectAttempts (heap ?w1 0))
        \<and> timers ?w2 = timers ?w1 @ [0]"
    using t1 [THEN conjunct2, THEN conjunct1] h by (rule mp)
  have C: "isManualRestart (heap ?w1 0)"
    using t2 [THEN conjunct2, THEN conjunct2, THEN conjunct1] reg by (rule mp)
  have D: "\<not> isManualRestart (heap ?w2 0)"
    using t1 [THEN conjunct2, THEN conjunct2, THEN conjunct2] .
  show ?thesis
    using A C D by (simp add: s1(2) t)
qed

subsection \<open>C6: creating an instance\<close>

lemma initialize_try_effects:
  assumes "row_id (instanceData (heap w r)) \<in> set (map row_id (db_instances w))"
  shows "authDir (heap w r) \<in> auth_dirs (snd (initialize_try e r w))
       \<and> (\<forall>row \<in> set (db_instances (snd (initialize_try e r w))).
             row_id row = row_id (instanceData (heap w r)) \<longrightarrow> row_status row = ''connecting'')
       \<and> (fst (initialize_try e r w) = None \<longrightarrow>
             sock (heap (snd (initialize_try e r w)) r) \<noteq> None
             \<and> connectionStatus (heap (snd (initialize_try e r w)) r) = connectionStatus (heap w r))
       \<and> (io_error e (tick w) = None \<longrightarrow> fst (initialize_try e r w) = None)"
  using assms
  by (auto simp: initialize_try_def then_do_def instanceService_updateStatus_def Let_def
        loadPlugins_def upd_obj_def instanceLogService_create_def split: option.split)

lemma initialize_effects:
  assumes "row_id (instanceData (heap w r)) \<in> set (map row_id (db_instances w))"
  shows "fst (initialize e r w) = None
       \<and> authDir (heap w r) \<in> auth_dirs (snd (initialize e r w))
       \<and> (\<forall>row \<in> set (db_instances (snd (initialize e r w))).
             row_id row = row_id (instanceData (heap w r)) \<longrightarrow>
             row_status row = ''connecting'' \<or> row_status row = ''error'')
       \<and> (io_error e (tick w) = None \<longrightarrow>
             sock (heap (snd (initialize e r w)) r) \<noteq> None
             \<and> connectionStatus (heap (snd (initialize e r w)) r) = connectionStatus (heap w r))"
proof -
  obtain x w1 where t: "initialize_try e r w = (x, w1)" by (cases "initialize_try e r w")
  have f: "session_frame w w1" "registry_frame w w1"
    using initialize_try_frames [where w=w and e=e and r=r] t by simp_all
  have eff: "authDir (heap w r) \<in> auth_dirs w1"
      "\<forall>row \<in> set (db_instances w1).
             row_id row = row_id (instanceData (heap w r)) \<longrightarrow> row_status row = ''connecting''"
      "x = None \<longrightarrow> sock (heap w1 r) \<noteq> None \<and> connectionStatus (heap w1 r) = connectionStatus (heap w r)"
      "io_error e (tick w) = None \<longrightarrow> x = None"
    using initialize_try_effects [OF assms, of e] t by simp_all
  show ?thesis
  proof (cases x)
    case None
    then show ?thesis using t eff by (auto simp: initialize_def)
  next
    case (Some error)
    have id1: "instanceData (heap w1 r) = instanceData (heap w r)"
      using f(1) by (simp add: session_frame_def)
    have row1: "row_id (instanceData (heap w r)) \<in> set (map row_id (db_instances w1))"
      using f(2) assms by (simp add: registry_frame_def)
    show ?thesis
      using t Some eff row1
      by (auto simp: initialize_def Let_def id1 instanceService_updateStatus_def upd_obj_def
            instanceLogService_create_def log_line_def)
  qed
qed

lemma findByPhone_None: "findByPhone p w = None \<longleftrightarrow> p \<notin> set (map row_phone (db_instances w))"
  by (auto simp: findByPhone_def find_None_iff)

lemma create_existing:
  assumes "phone \<noteq> []" and "name' \<noteq> []" and "findByPhone phone w = Some existing"
  shows "controller_createInstance e (Some phone) (Some name') alias w
         = (\<lparr>status_code = 400, reply_success = False,
             reply_error = Some ''Instance already exists'', reply_data = None\<rparr>, w)"
  using assms by (simp add: controller_createInstance_def)

lemma create_fresh:
  assumes "phone \<noteq> []" and "name' \<noteq> []" and "findByPhone phone w = None"
      and "stripNonDigits phone \<notin> set (map row_phone (db_instances w))"
  shows "\<exists>row w'.
           controller_createInstance e (Some phone) (Some name') alias w
             = (\<lparr>status_code = 201, reply_success = True, reply_error = None,
                 reply_data = Some row\<rparr>, w')
         \<and> row_phone row = stripNonDigits phone \<and> row_name row = name'
         \<and> row_alias row = (if falsy alias then None else alias)
         \<and> stripNonDigits phone \<in> set (map row_phone (db_instances w'))
         \<and> instances w' (stripNonDigits phone) = Some (next_ref w)
         \<and> instanceData (heap w' (next_ref w)) = row
         \<and> stripNonDigits phone \<in> auth_dirs w'
         \<and> (\<forall>row' \<in> set (db_instances w').
               row_id row' = row_id row \<longrightarrow>
               row_status row' = ''connecting'' \<or> row_status row' = ''error'')
         \<and> (io_error e (tick w) = None \<longrightarrow> sock (heap w' (next_ref w)) \<noteq> None)"
proof -
  let ?d = "stripNonDigits phone"
  let ?row = "\<lparr>row_id = showNat (next_id w), row_phone = ?d, row_name = name',
               row_alias = (if falsy alias then None else alias), row_status = ''inactive'',
               row_pluginConfig = JObject []\<rparr>"
  let ?w1 = "w\<lparr>db_instances := db_instances w @ [?row], next_id := Suc (next_id w)\<rparr>"
  let ?r = "next_ref w"
  let ?w2 = "?w1\<lparr>heap := (heap ?w1)(?r := new_WhatsAppInstance ?row), next_ref := Suc ?r,
                  instances := (instances ?w1)(?d \<mapsto> ?r)\<rparr>"
  have c: "instanceService_create ?d name' (if falsy alias then None else alias) w = (Inr ?row, ?w1)"
    using assms(4) by (simp add: instanceService_create_def Let_def)
  have rowin: "row_id (instanceData (heap ?w2 ?r)) \<in> set (map row_id (db_instances ?w2))"
    by (simp add: new_WhatsAppInstance_def)
  obtain x w3 where i: "initialize e ?r ?w2 = (x, w3)" by (cases "initialize e ?r ?w2")
  have eff: "x = None" "authDir (heap ?w2 ?r) \<in> auth_dirs w3"
      "\<forall>row' \<in> set (db_instances w3).
             row_id row' = row_id (instanceData (heap ?w2 ?r)) \<longrightarrow>
             row_status row' = ''connecting'' \<or> row_status row' = ''error''"
      "io_error e (tick ?w2) = None \<longrightarrow> sock (heap w3 ?r) \<noteq> None"
    using initialize_effects [OF rowin, of e] i by simp_all
  have fr: "session_frame ?w2 w3" "registry_frame ?w2 w3"
    using initialize_frames [where w="?w2" and e=e and r="?r"] i by simp_all
  have m: "manager_createInstance e ?d name' (if falsy alias then None else alias) w = (Inr ?row, w3)"
    using c i eff(1) by (simp add: manager_createInstance_def Let_def)
  have ctl: "controller_createInstance e (Some phone) (Some name') alias w
             = (\<lparr>status_code = 201, reply_success = True, reply_error = None,
                 reply_data = Some ?row\<rparr>, w3)"
    using assms(1,2,3) m by (simp add: controller_createInstance_def)
  have p1: "?d \<in> set (map row_phone (db_instances w3))"
    using fr(2) by (simp add: registry_frame_def)
  have p2: "instances w3 ?d = Some ?r"
    using fr(2) by (simp add: registry_frame_def)
  have p3: "instanceData (heap w3 ?r) = ?row"
    using fr(1) by (simp add: session_frame_def new_WhatsAppInstance_def)
  have p4: "?d \<in> auth_dirs w3"
    using eff(2) by (simp add: new_WhatsAppInstance_def)
  have p5: "\<forall>row' \<in> set (db_instances w3).
               row_id row' = showNat (next_id w) \<longrightarrow>
               row_status row' = ''connecting'' \<or> row_status row' = ''error''"
    using eff(3) by (simp add: new_WhatsAppInstance_def)
  have p6: "io_error e (tick w) = None \<longrightarrow> sock (heap w3 ?r) \<noteq> None"
    using eff(4) by simp
  show ?thesis
    apply (rule exI [of _ ?row])
    apply (rule exI [of _ w3])
    apply (rule conjI [OF ctl])
    apply (simp only: instance_row.simps simp_thms)
    apply (rule conjI [OF p1 conjI [OF p2 conjI [OF p3 conjI [OF p4 conjI [OF p5 p6]]]]])
    done
qed

text \<open>
  The lookup uses the phone as sent, the row is created with its digits: when only the
  digits-only phone is in the store, the create fails on the unique phone and the reply is
  the general failure.
\<close>

lemma create_duplicate_after_normalising:
  assumes "phone \<noteq> []" and "name' \<noteq> []" and "findByPhone phone w = None"
      and "stripNonDigits phone \<in> set (map row_phone (db_instances w))"
  shows "status_code (fst (controller_createInstance e (Some phone) (Some name') alias w)) = 500
       \<and> reply_error (fst (controller_createInstance e (Some phone) (Some name') alias w))
           = Some ''Failed to create instance''
       \<and> db_instances (snd (controller_createInstance e (Some phone) (Some name') alias w))
           = db_instances w
       \<and> instances (snd (controller_createInstance e (Some phone) (Some name') alias w))
           = instances w"
  using assms
  by (simp add: controller_createInstance_def manager_createInstance_def instanceService_create_def
        log_line_def)


text \<open>
  C6, as amended. A create request with a phone and a name is refused as
  \<open>Instance already exists\<close>, the world unchanged, whenever a persisted row has the phone
  as sent; the manager's in-memory map is not consulted. When neither the phone as sent nor
  its digits-only form is persisted, the request succeeds: a row with the digits-only phone
  is persisted and returned, an instance built from it is registered in the manager under
  that phone (in place of any instance already there), and it is started: its credential
  directory exists, its persisted status is \<open>connecting\<close> (or \<open>error\<close>, when the
  transport could not be opened), and it has a socket when the transport was opened.
\<close>

theorem create_instance_checks_store:
  assumes "phone \<noteq> []" and "name' \<noteq> []"
  shows "(findByPhone phone w \<noteq> None \<longrightarrow>
            controller_createInstance e (Some phone) (Some name') alias w
              = (\<lparr>status_code = 400, reply_success = False,
                  reply_error = Some ''Instance already exists'', reply_data = None\<rparr>, w))
       \<and> (findByPhone phone w = None
           \<and> stripNonDigits phone \<notin> set (map row_phone (db_instances w)) \<longrightarrow>
            (\<exists>row w'.
               controller_createInstance e (Some phone) (Some name') alias w
                 = (\<lparr>status_code = 201, reply_success = True, reply_error = None,
                     reply_data = Some row\<rparr>, w')
             \<and> row_phone row = stripNonDigits phone \<and> row_name row = name'
             \<and> row_alias row = (if falsy alias then None else alias)
             \<and> stripNonDigits phone \<in> set (map row_phone (db_instances w'))
             \<and> instances w' (stripNonDigits phone) = Some (next_ref w)
             \<and> instanceData (heap w' (next_ref w)) = row
             \<and> stripNonDigits phone \<in> auth_dirs w'
             \<and> (\<forall>row' \<in> set (db_instances w').
                   row_id row' = row_id row \<longrightarrow>
                   row_status row' = ''connecting'' \<or> row_status row' = ''error'')
             \<and> (io_error e (tick w) = None \<longrightarrow> sock (heap w' (next_ref w)) \<noteq> None)))"
proof (intro conjI impI)
  assume "findByPhone phone w \<noteq> None"
  then obtain existing where "findByPhone phone w = Some existing" by auto
  from create_existing [OF assms this]
  show "controller_createInstance e (Some phone) (Some name') alias w
              = (\<lparr>status_code = 400, reply_success = False,
                  reply_error = Some ''Instance already exists'', reply_data = None\<rparr>, w)" .
next
  assume a: "findByPhone phone w = None
           \<and> stripNonDigits phone \<notin> set (map row_phone (db_instances w))"
  from create_fresh [OF assms a [THEN conjunct1] a [THEN conjunct2]]
  show "\<exists>row w'.
               controller_createInstance e (Some phone) (Some name') alias w
                 = (\<lparr>status_code = 201, reply_success = True, reply_error = None,
                     reply_data = Some row\<rparr>, w')
             \<and> row_phone row = stripNonDigits phone \<and> row_name row = name'
             \<and> row_alias row = (if falsy alias then None else alias)
             \<and> stripNonDigits phone \<in> set (map row_phone (db_instances w'))
             \<and> instances w' (stripNonDigits phone) = Some (next_ref w)
             \<and> instanceData (heap w' (next_ref w)) = row
             \<and> stripNonDigits phone \<in> auth_dirs w'
             \<and> (\<forall>row' \<in> set (db_instances w').
                   row_id row' = row_id row \<longrightarrow>
                   row_status row' = ''connecting'' \<or> row_status row' = ''error'')
             \<and> (io_error e (tick w) = None \<longrightarrow> sock (heap w' (next_ref w)) \<noteq> None)" .
qed

theorem create_instance_checks_store_witness:
  "fst (controller_createInstance example_env (Some ''628123456789'') (Some ''I2'') None example_world)
     = \<lparr>status_code = 400, reply_success = False,
        reply_error = Some ''Instance already exists'', reply_data = None\<rparr>
   \<and> status_code (fst (controller_createInstance example_env (Some ''+62 812-000'') (Some ''I2'') None
                         example_world)) = 201
   \<and> instances (snd (controller_createInstance example_env (Some ''+62 812-000'') (Some ''I2'') None
                        example_world)) ''62812000'' = Some 1
   \<and> ''62812000'' \<in> auth_dirs (snd (controller_createInstance example_env (Some ''+62 812-000'')
                                      (Some ''I2'') None example_world))"
proof -
  have ne: "''628123456789'' \<noteq> []" "''+62 812-000'' \<noteq> []" "''I2'' \<noteq> []" by simp_all
  have d: "stripNonDigits ''+62 812-000'' = ''62812000''"
    by (simp add: stripNonDigits_def isDigit_def)
  have a: "findByPhone ''628123456789'' example_world \<noteq> None"
    by (simp add: findByPhone_def example_world_def example_row_def)
  have b: "findByPhone ''+62 812-000'' example_world = None
           \<and> stripNonDigits ''+62 812-000'' \<notin> set (map row_phone (db_instances example_world))"
    by (simp add: d findByPhone_def example_world_def example_row_def)
  have n: "next_ref example_world = 1" by (simp add: example_world_def)
  note t1 = create_instance_checks_store [OF ne(1) ne(3), of example_world example_env None]
  note t2 = create_instance_checks_store [OF ne(2) ne(3), of example_world example_env None]
  have A: "controller_createInstance example_env (Some ''628123456789'') (Some ''I2'') None example_world
            = (\<lparr>status_code = 400, reply_success = False,
                reply_error = Some ''Instance already exists'', reply_data = None\<rparr>, example_world)"
    using t1 [THEN conjunct1] a by (rule mp)
  from t2 [THEN conjunct2] b
  obtain row w' where B:
      "controller_createInstance example_env (Some ''+62 812-000'') (Some ''I2'') None example_world
         = (\<lparr>status_code = 201, reply_success = True, reply_error = None,
             reply_data = Some row\<rparr>, w')"
      "instances w' (stripNonDigits ''+62 812-000'') = Some (next_ref example_world)"
      "stripNonDigits ''+62 812-000'' \<in> auth_dirs w'"
    by blast
  show ?thesis
    using B by (simp add: A d n)
qed

text \<open>
  An instance that is in memory but not persisted does not stop a create for its phone: the
  request succeeds and the manager's entry is replaced.
\<close>

theorem in_memory_only_counterexample:
  "instances unpersisted_world ''628123456789'' = Some 0
   \<and> status_code (fst (controller_createInstance example_env (Some ''628123456789'') (Some ''I2'') None
                         unpersisted_world)) = 201
   \<and> instances (snd (controller_createInstance example_env (Some ''628123456789'') (Some ''I2'') None
                        unpersisted_world)) ''628123456789'' = Some 1"
proof -
  have ne: "''628123456789'' \<noteq> []" "''I2'' \<noteq> []" by simp_all
  have d: "stripNonDigits ''628123456789'' = ''628123456789''"
    by (simp add: stripNonDigits_def isDigit_def)
  have a: "findByPhone ''628123456789'' unpersisted_world = None"
      "stripNonDigits ''628123456789'' \<notin> set (map row_phone (db_instances unpersisted_world))"
    by (simp_all add: findByPhone_def unpersisted_world_def)
  have n: "next_ref unpersisted_world = 1" "instances unpersisted_world ''628123456789'' = Some 0"
    by (simp_all add: unpersisted_world_def example_world_def)
  from create_fresh [OF ne a, of example_env None]
  obtain row w' where B:
      "controller_createInstance example_env (Some ''628123456789'') (Some ''I2'') None unpersisted_world
         = (\<lparr>status_code = 201, reply_success = True, reply_error = None,
             reply_data = Some row\<rparr>, w')"
      "instances w' (stripNonDigits ''628123456789'') = Some (next_ref unpersisted_world)"
    by blast
  show ?thesis
    using B by (simp add: d n)
qed

end
